theory Spec2Isabelle
  imports Main "HOL-Library.Log_Nat"
begin

section \<open>Data model\<close>

text \<open>
  The cart service exists twice in the repository: \<^verbatim>\<open>src/services/cart.service.js\<close> and a
  second copy of the same module (\<^verbatim>\<open>src/unnamed/part_001\<close>). The functions of the first keep
  their names; those of the second carry the suffix \<open>_p1\<close>.

  Documents: a Mongo collection is a map from the key the service looks a document up by
  to the document. Carts are found by the email of their owner, so the email field of a cart
  document is the key of the map \<open>carts\<close>. A user document is written back by its own
  identity, the field \<open>uid\<close>. The products are a list, searched by the product's id; the
  field \<open>product_id\<close> is the id as the store prints it.
\<close>

subsection \<open>JavaScript numbers\<close>

text \<open>
  Costs, quantities and wallet amounts have the schema type \<^verbatim>\<open>Number\<close>: IEEE 754 doubles. A
  finite double is the rational it denotes; the two infinities and NaN are values of their
  own. The two zeros are one value: no operation of the service tells them apart.
\<close>

datatype number = Num rat | Infinity | NegInfinity | NaN

text \<open>\<open>flog2 a\<close> is the integer \<open>e\<close> with \<open>2 ^ e \<le> a < 2 ^ (e + 1)\<close>, for a positive \<open>a\<close>.\<close>

definition flog2 :: "rat \<Rightarrow> int" where
  "flog2 a = (case quotient_of a of (p, q) \<Rightarrow>
                (let d = bitlen p - bitlen q in if power_int 2 d \<le> a then d else d - 1))"

definition roundTiesToEven :: "rat \<Rightarrow> int" where
  "roundTiesToEven q =
     (let f = \<lfloor>q\<rfloor>; r = q - of_int f
      in if r < 1 / 2 then f else if 1 / 2 < r then f + 1 else if even f then f else f + 1)"

text \<open>
  The result of an arithmetic operation is the exact result rounded to the nearest double,
  ties to the even significand: 53 bits of significand, the least exponent that of the
  subnormals (\<open>2 ^ - 1074\<close>), and an infinity when the rounded magnitude reaches \<open>2 ^ 1024\<close>.
\<close>

definition roundToDouble :: "rat \<Rightarrow> number" where
  "roundToDouble x =
     (if x = 0 then Num 0
      else
        (let a = \<bar>x\<bar>;
             s = max (flog2 a - 52) (- 1074);
             m = roundTiesToEven (a / power_int 2 s);
             y = of_int m * power_int 2 s
         in if 2 ^ 1024 \<le> y then (if 0 < x then Infinity else NegInfinity)
            else Num (if 0 < x then y else - y)))"

fun js_neg :: "number \<Rightarrow> number" where
  "js_neg (Num a) = Num (- a)"
| "js_neg Infinity = NegInfinity"
| "js_neg NegInfinity = Infinity"
| "js_neg NaN = NaN"

fun js_add :: "number \<Rightarrow> number \<Rightarrow> number" where
  "js_add (Num a) (Num b) = roundToDouble (a + b)"
| "js_add NaN y = NaN"
| "js_add x NaN = NaN"
| "js_add Infinity NegInfinity = NaN"
| "js_add NegInfinity Infinity = NaN"
| "js_add Infinity y = Infinity"
| "js_add x Infinity = Infinity"
| "js_add NegInfinity y = NegInfinity"
| "js_add x NegInfinity = NegInfinity"

definition js_sub :: "number \<Rightarrow> number \<Rightarrow> number" where
  "js_sub x y = js_add x (js_neg y)"

fun js_mul :: "number \<Rightarrow> number \<Rightarrow> number" where
  "js_mul (Num a) (Num b) = roundToDouble (a * b)"
| "js_mul NaN y = NaN"
| "js_mul x NaN = NaN"
| "js_mul (Num a) y = (if a = 0 then NaN else if 0 < a then y else js_neg y)"
| "js_mul x (Num b) = (if b = 0 then NaN else if 0 < b then x else js_neg x)"
| "js_mul x y = (if x = y then Infinity else NegInfinity)"

fun js_lt :: "number \<Rightarrow> number \<Rightarrow> bool" where
  "js_lt (Num a) (Num b) = (a < b)"
| "js_lt NaN y = False"
| "js_lt x NaN = False"
| "js_lt NegInfinity y = (y \<noteq> NegInfinity)"
| "js_lt x Infinity = (x \<noteq> Infinity)"
| "js_lt x y = False"

definition js_gt :: "number \<Rightarrow> number \<Rightarrow> bool" where
  "js_gt x y = js_lt y x"

definition js_le :: "number \<Rightarrow> number \<Rightarrow> bool" where
  "js_le x y = (js_lt x y \<or> (x = y \<and> x \<noteq> NaN))"

subsection \<open>Documents\<close>

record config =
  default_address :: string
  default_payment_option :: string

record product =
  product_id :: string
  cost :: number

record cartItem =
  product :: product
  quantity :: number

record cart =
  cartItems :: "cartItem list"
  paymentOption :: string

record user =
  uid :: string
  email :: string
  password :: string
  walletMoney :: number
  address :: string

record db =
  users :: "string \<rightharpoonup> user"
  carts :: "string \<rightharpoonup> cart"
  products :: "product list"

text \<open>
  What the world outside the service does during one call: which calls of the persistence
  layer reject, what bcrypt makes of a password (the salt is random), and how the object
  mapper reads a string as a document id. The product model is not among the sources; a
  document has an \<^verbatim>\<open>ObjectId\<close> for its \<^verbatim>\<open>_id\<close> unless its schema says otherwise, and a query
  by \<^verbatim>\<open>_id\<close> casts the string it is given: \<open>castObjectId\<close> gives the id in the spelling of
  the store, or nothing when the string is no id.
\<close>

record io =
  cart_find_fails :: bool
  product_find_fails :: bool
  create_fails :: bool
  cart_save_fails :: bool
  user_save_fails :: bool
  update_fails :: bool
  bcrypt_hash :: "string \<Rightarrow> string"
  castObjectId :: "string \<Rightarrow> string option"

text \<open>
  An operation ends with a thrown \<open>ApiError\<close> (status code and message) or with the rejection
  of a call of the persistence layer (the store failing, or a string that is no id), which
  the service does not catch and which therefore reaches the caller as it is.
\<close>

datatype error = ApiError nat string | StoreError | CastError

abbreviation BAD_REQUEST :: nat where "BAD_REQUEST \<equiv> 400"
abbreviation NOT_FOUND :: nat where "NOT_FOUND \<equiv> 404"
abbreviation INTERNAL_SERVER_ERROR :: nat where "INTERNAL_SERVER_ERROR \<equiv> 500"

section \<open>The persistence layer\<close>

definition Cart_findOne :: "io \<Rightarrow> db \<Rightarrow> string \<Rightarrow> error + cart option" where
  "Cart_findOne w d e = (if cart_find_fails w then Inl StoreError else Inr (carts d e))"

text \<open>
  \<^verbatim>\<open>Product.findById(productId)\<close> and \<^verbatim>\<open>Product.findOne({_id: productId})\<close>: the string is
  cast to an id, and the product with that id is looked for.
\<close>

definition Product_findById :: "io \<Rightarrow> db \<Rightarrow> string \<Rightarrow> error + product option" where
  "Product_findById w d productId =
     (case castObjectId w productId of
        None \<Rightarrow> Inl CastError
      | Some oid \<Rightarrow>
          if product_find_fails w then Inl StoreError
          else Inr (find (\<lambda>p. product_id p = oid) (products d)))"

definition Cart_create :: "io \<Rightarrow> db \<Rightarrow> string \<Rightarrow> cart \<Rightarrow> error + db" where
  "Cart_create w d e c =
     (if create_fails w then Inl StoreError else Inr (d\<lparr>carts := (carts d)(e \<mapsto> c)\<rparr>))"

definition cart_save :: "io \<Rightarrow> db \<Rightarrow> string \<Rightarrow> cart \<Rightarrow> error + db" where
  "cart_save w d e c =
     (if cart_save_fails w then Inl StoreError else Inr (d\<lparr>carts := (carts d)(e \<mapsto> c)\<rparr>))"

text \<open>
  \<^verbatim>\<open>userSchema.pre("save", ...)\<close> of \<^verbatim>\<open>user.model.js\<close>: every save of a user document
  replaces the password by its bcrypt hash.
\<close>

definition pre_save :: "io \<Rightarrow> user \<Rightarrow> user" where
  "pre_save w u = u\<lparr>password := bcrypt_hash w (password u)\<rparr>"

definition user_save :: "io \<Rightarrow> db \<Rightarrow> user \<Rightarrow> error + db" where
  "user_save w d u =
     (if user_save_fails w then Inl StoreError
      else Inr (d\<lparr>users := (users d)(uid u \<mapsto> pre_save w u)\<rparr>))"

text \<open>
  \<^verbatim>\<open>Cart.updateOne({email}, {$pull: {"cartItem.product._id": productId}})\<close>: \<open>$pull\<close> removes
  elements from the array stored under the given path. A cart document has one array, under
  the path \<^verbatim>\<open>cartItems\<close>; the path of this call is another one, under which a cart document
  stores nothing, so there is nothing to pull from and the document stays as it is (under
  \<^verbatim>\<open>cartItems\<close> the elements equal to the given string would go, and no item document is a
  string).
\<close>

definition Cart_updateOne_pull :: "io \<Rightarrow> db \<Rightarrow> string \<Rightarrow> string \<Rightarrow> string \<Rightarrow> error + db" where
  "Cart_updateOne_pull w d e path v =
     (if update_fails w then Inl StoreError
      else Inr d)"

section \<open>The user model\<close>

definition hasSetNonDefaultAddress :: "config \<Rightarrow> user \<Rightarrow> bool" where
  "hasSetNonDefaultAddress cfg u = (address u \<noteq> default_address cfg)"

section \<open>The cart service: \<^verbatim>\<open>src/services/cart.service.js\<close>\<close>

definition getCartByUser :: "io \<Rightarrow> db \<Rightarrow> user \<Rightarrow> error + cart" where
  "getCartByUser w d u =
     (case Cart_findOne w d (email u) of
        Inl e \<Rightarrow> Inl e
      | Inr None \<Rightarrow> Inl (ApiError NOT_FOUND ''User Cart does not exist'')
      | Inr (Some result) \<Rightarrow> Inr result)"

text \<open>
  The search loop of the three mutating functions compares the string it is given with the
  id of each item's product, as the store prints it:
  \<^verbatim>\<open>let productIndex = -1;
  for (let i = 0; i < cart.cartItems.length; i++) {
    if (productId == cart.cartItems[i].product._id) { productIndex = i; }
  }\<close>
  The loop has no \<^verbatim>\<open>break\<close>: a later match overwrites an earlier one.
\<close>

fun productIndexLoop :: "string \<Rightarrow> cartItem list \<Rightarrow> nat \<Rightarrow> int \<Rightarrow> int" where
  "productIndexLoop productId [] i productIndex = productIndex"
| "productIndexLoop productId (item # items) i productIndex =
     productIndexLoop productId items (Suc i)
       (if productId = product_id (product item) then int i else productIndex)"

definition findProductIndex :: "string \<Rightarrow> cartItem list \<Rightarrow> int" where
  "findProductIndex productId items = productIndexLoop productId items 0 (- 1)"

text \<open>
  An operation returns its outcome and the store it leaves behind, also when it throws.
  In \<open>addProductToCart\<close> the test \<^verbatim>\<open>cart == null\<close> after the creation never holds, since
  \<^verbatim>\<open>Cart.create\<close> returns the document or rejects.
\<close>

definition addProductToCart ::
  "config \<Rightarrow> io \<Rightarrow> db \<Rightarrow> user \<Rightarrow> string \<Rightarrow> number \<Rightarrow> (error + cart) \<times> db" where
  "addProductToCart cfg w d u productId qty =
     (case Cart_findOne w d (email u) of
        Inl e \<Rightarrow> (Inl e, d)
      | Inr found \<Rightarrow>
          (case (case found of
                   Some c \<Rightarrow> Inr (c, d)
                 | None \<Rightarrow>
                     (let c = \<lparr>cartItems = [], paymentOption = default_payment_option cfg\<rparr>
                      in case Cart_create w d (email u) c of
                           Inl e \<Rightarrow> Inl (ApiError INTERNAL_SERVER_ERROR ''500 Internal Server Error'')
                         | Inr d1 \<Rightarrow> Inr (c, d1))) of
             Inl e \<Rightarrow> (Inl e, d)
           | Inr (cart, d1) \<Rightarrow>
               if findProductIndex productId (cartItems cart) = - 1 then
                 (case Product_findById w d1 productId of
                    Inl e \<Rightarrow> (Inl e, d1)
                  | Inr None \<Rightarrow>
                      (Inl (ApiError BAD_REQUEST ''Product doesn't exist in database''), d1)
                  | Inr (Some p) \<Rightarrow>
                      (let cart' = cart\<lparr>cartItems :=
                                      cartItems cart @ [\<lparr>product = p, quantity = qty\<rparr>]\<rparr>
                       in case cart_save w d1 (email u) cart' of
                            Inl e \<Rightarrow> (Inl e, d1)
                          | Inr d2 \<Rightarrow> (Inr cart', d2)))
               else
                 (Inl (ApiError BAD_REQUEST
                    ''Product already in cart. Use the cart sidebar to update or remove product from cart''),
                  d1)))"

definition updateProductInCart ::
  "io \<Rightarrow> db \<Rightarrow> user \<Rightarrow> string \<Rightarrow> number \<Rightarrow> (error + cart) \<times> db" where
  "updateProductInCart w d u productId qty =
     (case Cart_findOne w d (email u) of
        Inl e \<Rightarrow> (Inl e, d)
      | Inr None \<Rightarrow> (Inl (ApiError BAD_REQUEST ''User does not have a cart''), d)
      | Inr (Some cart) \<Rightarrow>
          (case Product_findById w d productId of
             Inl e \<Rightarrow> (Inl e, d)
           | Inr None \<Rightarrow> (Inl (ApiError BAD_REQUEST ''Product does not exist''), d)
           | Inr (Some p) \<Rightarrow>
               (let productIndex = findProductIndex productId (cartItems cart)
                in if productIndex = - 1 then
                     (Inl (ApiError BAD_REQUEST ''Product not in cart''), d)
                   else
                     (let n = nat productIndex;
                          cart' = cart\<lparr>cartItems :=
                                    (cartItems cart)[n := (cartItems cart ! n)\<lparr>quantity := qty\<rparr>]\<rparr>
                      in case cart_save w d (email u) cart' of
                           Inl e \<Rightarrow> (Inl e, d)
                         | Inr d1 \<Rightarrow> (Inr cart', d1)))))"

text \<open>\<^verbatim>\<open>cart.cartItems.splice(productIndex, 1)\<close> takes the element at the index out.\<close>

definition splice1 :: "nat \<Rightarrow> 'a list \<Rightarrow> 'a list" where
  "splice1 n xs = take n xs @ drop (Suc n) xs"

definition deleteProductFromCart ::
  "io \<Rightarrow> db \<Rightarrow> user \<Rightarrow> string \<Rightarrow> (error + unit) \<times> db" where
  "deleteProductFromCart w d u productId =
     (case Cart_findOne w d (email u) of
        Inl e \<Rightarrow> (Inl e, d)
      | Inr None \<Rightarrow> (Inl (ApiError BAD_REQUEST ''User does not have a cart''), d)
      | Inr (Some cart) \<Rightarrow>
          (let productIndex = findProductIndex productId (cartItems cart)
           in if productIndex = - 1 then
                (Inl (ApiError BAD_REQUEST ''Product not in cart''), d)
              else
                (let cart' = cart\<lparr>cartItems := splice1 (nat productIndex) (cartItems cart)\<rparr>
                 in case cart_save w d (email u) cart' of
                      Inl e \<Rightarrow> (Inl e, d)
                    | Inr d1 \<Rightarrow> (Inr (), d1))))"

text \<open>
  \<open>checkout\<close>: the costs of the lines are collected with \<^verbatim>\<open>map\<close> and added up by a loop
  from \<open>0\<close>. The user document is saved first, the emptied cart second. The result of
  \<^verbatim>\<open>user.hasSetNonDefaultAddress()\<close> is computed after the address test and not used.
\<close>

definition checkout :: "config \<Rightarrow> io \<Rightarrow> db \<Rightarrow> user \<Rightarrow> (error + unit) \<times> db" where
  "checkout cfg w d u =
     (case getCartByUser w d u of
        Inl e \<Rightarrow> (Inl e, d)
      | Inr cart \<Rightarrow>
          if length (cartItems cart) = 0 then
            (Inl (ApiError BAD_REQUEST ''No items in the cart''), d)
          else if address u = default_address cfg then
            (Inl (ApiError BAD_REQUEST '' Address unavailable''), d)
          else
            (let defaultAddressFlag = hasSetNonDefaultAddress cfg u;
                 sub = map (\<lambda>item. js_mul (cost (product item)) (quantity item))
                         (cartItems cart);
                 total = foldl (\<lambda>total x. js_add total x) (Num 0) sub;
                 balance = js_sub (walletMoney u) total
             in if js_lt balance (Num 0) then
                  (Inl (ApiError BAD_REQUEST ''Balance insufficient''), d)
                else
                  (case user_save w d (u\<lparr>walletMoney := balance\<rparr>) of
                     Inl e \<Rightarrow> (Inl e, d)
                   | Inr d1 \<Rightarrow>
                       (case cart_save w d1 (email u) (cart\<lparr>cartItems := []\<rparr>) of
                          Inl e \<Rightarrow> (Inl e, d1)
                        | Inr d2 \<Rightarrow> (Inr (), d2)))))"

section \<open>The cart service, second copy: \<^verbatim>\<open>src/unnamed/part_001\<close>\<close>

definition getCartByUser_p1 :: "io \<Rightarrow> db \<Rightarrow> user \<Rightarrow> error + cart" where
  "getCartByUser_p1 w d u =
     (case Cart_findOne w d (email u) of
        Inl e \<Rightarrow> Inl e
      | Inr None \<Rightarrow> Inl (ApiError NOT_FOUND ''User does not have a cart'')
      | Inr (Some c) \<Rightarrow> Inr c)"

text \<open>
  Modelled from the spec: the cart schema (\<^verbatim>\<open>models/cart.model.js\<close>) is not among the
  sources. \<^verbatim>\<open>Cart.create({email: user.email})\<close> leaves the other fields to the schema's
  defaults: a created cart has the empty item list (section 4.2, step 1 of adding an item),
  and the payment option is the configured default (section 9).
\<close>

definition cartSchemaDefaults :: "config \<Rightarrow> cart" where
  "cartSchemaDefaults cfg = \<lparr>cartItems = [], paymentOption = default_payment_option cfg\<rparr>"

definition addProductToCart_p1 ::
  "config \<Rightarrow> io \<Rightarrow> db \<Rightarrow> user \<Rightarrow> string \<Rightarrow> number \<Rightarrow> (error + cart) \<times> db" where
  "addProductToCart_p1 cfg w d u productId qty =
     (case Cart_findOne w d (email u) of
        Inl e \<Rightarrow> (Inl e, d)
      | Inr found \<Rightarrow>
          (case (case found of
                   Some c \<Rightarrow> Inr (c, d)
                 | None \<Rightarrow>
                     (let c = cartSchemaDefaults cfg
                      in case Cart_create w d (email u) c of
                           Inl e \<Rightarrow> Inl (ApiError INTERNAL_SERVER_ERROR ''Internal Server Error'')
                         | Inr d1 \<Rightarrow> Inr (c, d1))) of
             Inl e \<Rightarrow> (Inl e, d)
           | Inr (cart, d1) \<Rightarrow>
               if length (filter (\<lambda>cartItem. product_id (product cartItem) = productId)
                            (cartItems cart)) > 0 then
                 (Inl (ApiError BAD_REQUEST
                    ''Product already in cart. Use the cart sidebar to update or remove product from cart''),
                  d1)
               else
                 (case Product_findById w d1 productId of
                    Inl e \<Rightarrow> (Inl e, d1)
                  | Inr None \<Rightarrow>
                      (Inl (ApiError BAD_REQUEST ''Product doesn't exist in database''), d1)
                  | Inr (Some p) \<Rightarrow>
                      (let cart' = cart\<lparr>cartItems :=
                                      cartItems cart @ [\<lparr>product = p, quantity = qty\<rparr>]\<rparr>
                       in case cart_save w d1 (email u) cart' of
                            Inl e \<Rightarrow> (Inl e, d1)
                          | Inr d2 \<Rightarrow> (Inr cart', d2)))))"

text \<open>
  The loop of the second \<open>updateProductInCart\<close> returns at the first match:
  \<^verbatim>\<open>for (let i = 0; i < cart.cartItems.length; i++) {
    if (cart.cartItems[i].product._id == productId) {
      cart.cartItems[i].quantity = quantity; await cart.save(); return cart; } }
  throw ...\<close>
  \<open>None\<close> stands for the loop running to its end.
\<close>

fun updateLoop_p1 :: "string \<Rightarrow> number \<Rightarrow> cartItem list \<Rightarrow> cartItem list option" where
  "updateLoop_p1 productId qty [] = None"
| "updateLoop_p1 productId qty (item # items) =
     (if product_id (product item) = productId then Some (item\<lparr>quantity := qty\<rparr> # items)
      else map_option (\<lambda>items'. item # items') (updateLoop_p1 productId qty items))"

definition updateProductInCart_p1 ::
  "io \<Rightarrow> db \<Rightarrow> user \<Rightarrow> string \<Rightarrow> number \<Rightarrow> (error + cart) \<times> db" where
  "updateProductInCart_p1 w d u productId qty =
     (case Cart_findOne w d (email u) of
        Inl e \<Rightarrow> (Inl e, d)
      | Inr None \<Rightarrow>
          (Inl (ApiError BAD_REQUEST
             ''User does not have a cart. Use POST to create cart and add a product''), d)
      | Inr (Some cart) \<Rightarrow>
          (case Product_findById w d productId of
             Inl e \<Rightarrow> (Inl e, d)
           | Inr None \<Rightarrow> (Inl (ApiError BAD_REQUEST ''Product doesn't exist in database''), d)
           | Inr (Some p) \<Rightarrow>
               (case updateLoop_p1 productId qty (cartItems cart) of
                  Some items' \<Rightarrow>
                    (let cart' = cart\<lparr>cartItems := items'\<rparr>
                     in case cart_save w d (email u) cart' of
                          Inl e \<Rightarrow> (Inl e, d)
                        | Inr d1 \<Rightarrow> (Inr cart', d1))
                | None \<Rightarrow> (Inl (ApiError BAD_REQUEST ''Product not in cart''), d))))"

definition deleteProductFromCart_p1 ::
  "io \<Rightarrow> db \<Rightarrow> user \<Rightarrow> string \<Rightarrow> (error + unit) \<times> db" where
  "deleteProductFromCart_p1 w d u productId =
     (case Cart_findOne w d (email u) of
        Inl e \<Rightarrow> (Inl e, d)
      | Inr None \<Rightarrow>
          (Inl (ApiError BAD_REQUEST
             ''User does not have a cart. Use POST to create cart and add a product''), d)
      | Inr (Some cart) \<Rightarrow>
          (let productInCart = filter (\<lambda>cartItem. product_id (product cartItem) = productId)
                                 (cartItems cart)
           in if length productInCart = 0 then
                (Inl (ApiError BAD_REQUEST ''Product not in cart''), d)
              else
                (case Cart_updateOne_pull w d (email u) ''cartItem.product._id'' productId of
                   Inl e \<Rightarrow> (Inl e, d)
                 | Inr d1 \<Rightarrow> (Inr (), d1))))"

text \<open>
  The second \<open>checkout\<close> asks \<^verbatim>\<open>user.hasSetNonDefaultAddress()\<close>, adds the costs up with
  \<^verbatim>\<open>reduce\<close> from \<open>0\<close>, and changes wallet and cart in memory before it saves the user and
  then the cart.
\<close>

definition checkout_p1 :: "config \<Rightarrow> io \<Rightarrow> db \<Rightarrow> user \<Rightarrow> (error + unit) \<times> db" where
  "checkout_p1 cfg w d u =
     (case Cart_findOne w d (email u) of
        Inl e \<Rightarrow> (Inl e, d)
      | Inr None \<Rightarrow> (Inl (ApiError NOT_FOUND ''User does not have a cart''), d)
      | Inr (Some cart) \<Rightarrow>
          if length (cartItems cart) = 0 then
            (Inl (ApiError BAD_REQUEST ''Cart doesn't have any product''), d)
          else
            (let isAddressPresent = hasSetNonDefaultAddress cfg u
             in if \<not> isAddressPresent then
                  (Inl (ApiError BAD_REQUEST ''Address Not Set''), d)
                else
                  (let totalCost =
                         foldl (\<lambda>sum item. js_add sum (js_mul (quantity item) (cost (product item))))
                           (Num 0) (cartItems cart)
                   in if js_gt totalCost (walletMoney u) then
                        (Inl (ApiError BAD_REQUEST ''User wallet balance is insufficien''), d)
                      else
                        (case user_save w d
                                (u\<lparr>walletMoney := js_sub (walletMoney u) totalCost\<rparr>) of
                           Inl e \<Rightarrow> (Inl e, d)
                         | Inr d1 \<Rightarrow>
                             (case cart_save w d1 (email u) (cart\<lparr>cartItems := []\<rparr>) of
                                Inl e \<Rightarrow> (Inl e, d1)
                              | Inr d2 \<Rightarrow> (Inr (), d2))))))"

section \<open>Sequences of cart requests\<close>

text \<open>
  A request of one user to the cart manager, and the store after serving it. A request that
  throws leaves the store it had reached when it threw. Every request meets its own
  behaviour of the outside world.
\<close>

datatype request = AddItem string number | UpdateItem string number | RemoveItem string

fun serve :: "config \<Rightarrow> user \<Rightarrow> db \<Rightarrow> io \<times> request \<Rightarrow> db" where
  "serve cfg u d (w, AddItem productId qty) = snd (addProductToCart cfg w d u productId qty)"
| "serve cfg u d (w, UpdateItem productId qty) = snd (updateProductInCart w d u productId qty)"
| "serve cfg u d (w, RemoveItem productId) = snd (deleteProductFromCart w d u productId)"

definition serveAll :: "config \<Rightarrow> user \<Rightarrow> db \<Rightarrow> (io \<times> request) list \<Rightarrow> db" where
  "serveAll cfg u d rs = foldl (serve cfg u) d rs"

fun serve_p1 :: "config \<Rightarrow> user \<Rightarrow> db \<Rightarrow> io \<times> request \<Rightarrow> db" where
  "serve_p1 cfg u d (w, AddItem productId qty) =
     snd (addProductToCart_p1 cfg w d u productId qty)"
| "serve_p1 cfg u d (w, UpdateItem productId qty) =
     snd (updateProductInCart_p1 w d u productId qty)"
| "serve_p1 cfg u d (w, RemoveItem productId) = snd (deleteProductFromCart_p1 w d u productId)"

definition serveAll_p1 :: "config \<Rightarrow> user \<Rightarrow> db \<Rightarrow> (io \<times> request) list \<Rightarrow> db" where
  "serveAll_p1 cfg u d rs = foldl (serve_p1 cfg u) d rs"

section \<open>The notions of the specification\<close>

text \<open>
  The computed total of a cart: the sum over its items of quantity times product cost, as
  the service computes it, on doubles, item after item from zero.
\<close>

definition computedTotal :: "cartItem list \<Rightarrow> number" where
  "computedTotal items =
     foldl (\<lambda>sum item. js_add sum (js_mul (quantity item) (cost (product item)))) (Num 0) items"

text \<open>The rational a finite number denotes, and whether a number is a whole one.\<close>

fun val :: "number \<Rightarrow> rat" where
  "val (Num a) = a"
| "val x = 0"

fun isInteger :: "number \<Rightarrow> bool" where
  "isInteger (Num a) = (of_int \<lfloor>a\<rfloor> = a)"
| "isInteger x = False"

text \<open>The same sum in exact arithmetic, and the sum of the magnitudes of its terms.\<close>

definition exactTotal :: "cartItem list \<Rightarrow> rat" where
  "exactTotal items = (\<Sum>item\<leftarrow>items. val (quantity item) * val (cost (product item)))"

definition absTotal :: "cartItem list \<Rightarrow> rat" where
  "absTotal items = (\<Sum>item\<leftarrow>items. \<bar>val (quantity item) * val (cost (product item))\<bar>)"

text \<open>
  Whole amounts within the range in which doubles count exactly: the wallet, every quantity
  and every cost is a whole number, and the magnitudes of the wallet and of the lines of the
  cart add up to \<open>2 ^ 53\<close> at most.
\<close>

definition safeAmounts :: "user \<Rightarrow> cartItem list \<Rightarrow> bool" where
  "safeAmounts u items =
     (isInteger (walletMoney u)
      \<and> (\<forall>item \<in> set items. isInteger (quantity item) \<and> isInteger (cost (product item)))
      \<and> \<bar>val (walletMoney u)\<bar> + absTotal items \<le> 2 ^ 53)"

text \<open>The product a string resolves to in the catalogue, if it is an id and one is found.\<close>

definition productOf :: "io \<Rightarrow> db \<Rightarrow> string \<Rightarrow> product option" where
  "productOf w d productId =
     (case castObjectId w productId of
        None \<Rightarrow> None
      | Some oid \<Rightarrow> find (\<lambda>p. product_id p = oid) (products d))"

text \<open>
  A string is spelled as the store prints ids when the cast leaves it as it is, or refuses
  it. A request is so spelled when it adds no product under another spelling.
\<close>

definition canonicalId :: "io \<Rightarrow> string \<Rightarrow> bool" where
  "canonicalId w productId =
     (case castObjectId w productId of None \<Rightarrow> True | Some oid \<Rightarrow> oid = productId)"

fun canonicalRequest :: "io \<times> request \<Rightarrow> bool" where
  "canonicalRequest (w, AddItem productId qty) = canonicalId w productId"
| "canonicalRequest (w, r) = True"

text \<open>A cart contains an item whose product id, as printed, is the given string.\<close>

definition hasProduct :: "string \<Rightarrow> cartItem list \<Rightarrow> bool" where
  "hasProduct productId items = (\<exists>item \<in> set items. product_id (product item) = productId)"

text \<open>The number of items of a cart whose product identity is the given one.\<close>

definition linesOf :: "string \<Rightarrow> cartItem list \<Rightarrow> nat" where
  "linesOf productId items = length (filter (\<lambda>item. product_id (product item) = productId) items)"

text \<open>No two items of the user's stored cart, if there is one, have the same product.\<close>

definition uniqueCart :: "db \<Rightarrow> string \<Rightarrow> bool" where
  "uniqueCart d e =
     (case carts d e of
        None \<Rightarrow> True
      | Some c \<Rightarrow> distinct (map (\<lambda>item. product_id (product item)) (cartItems c)))"

text \<open>
  The post-condition of a successful checkout of user \<open>u\<close>, whose cart was \<open>c\<close> in the store
  \<open>d\<close>: the call reports success; the stored cart has no items; the stored wallet is exactly
  the old one less the sum of quantity times cost, and not negative; no other user document,
  no other cart and no product has changed.
\<close>

definition checkoutPost :: "(error + unit) \<times> db \<Rightarrow> db \<Rightarrow> user \<Rightarrow> cart \<Rightarrow> bool" where
  "checkoutPost r d u c =
     (fst r = Inr ()
      \<and> map_option cartItems (carts (snd r) (email u)) = Some []
      \<and> map_option walletMoney (users (snd r) (uid u))
          = Some (Num (val (walletMoney u) - exactTotal (cartItems c)))
      \<and> 0 \<le> val (walletMoney u) - exactTotal (cartItems c)
      \<and> (\<forall>k. k \<noteq> uid u \<longrightarrow> users (snd r) k = users d k)
      \<and> (\<forall>e. e \<noteq> email u \<longrightarrow> carts (snd r) e = carts d e)
      \<and> products (snd r) = products d)"

text \<open>The items of the cart stored for an email; none when no cart is stored.\<close>

definition itemsOf :: "db \<Rightarrow> string \<Rightarrow> cartItem list" where
  "itemsOf d e = (case carts d e of None \<Rightarrow> [] | Some c \<Rightarrow> cartItems c)"

text \<open>
  The position of the last, and of the first, item of a list whose product identity is the
  given one.
\<close>

definition isLastMatch :: "string \<Rightarrow> cartItem list \<Rightarrow> nat \<Rightarrow> bool" where
  "isLastMatch productId items n =
     (n < length items \<and> product_id (product (items ! n)) = productId
      \<and> (\<forall>m \<in> {Suc n ..< length items}. product_id (product (items ! m)) \<noteq> productId))"

definition isFirstMatch :: "string \<Rightarrow> cartItem list \<Rightarrow> nat \<Rightarrow> bool" where
  "isFirstMatch productId items n =
     (n < length items \<and> product_id (product (items ! n)) = productId
      \<and> (\<forall>m \<in> {..< n}. product_id (product (items ! m)) \<noteq> productId))"

section \<open>A small shop\<close>

text \<open>
  The caster of the examples: 24 hexadecimal digits, in either case, are the id they spell,
  which the store prints in lower case, as the object mapper has it. Every other string it
  refuses; the examples use none.
\<close>

definition isHexDigit :: "char \<Rightarrow> bool" where
  "isHexDigit ch = (ch \<in> set ''0123456789abcdefABCDEF'')"

definition lowerHex :: "char \<Rightarrow> char" where
  "lowerHex ch =
     (if ch = CHR ''A'' then CHR ''a'' else if ch = CHR ''B'' then CHR ''b''
      else if ch = CHR ''C'' then CHR ''c'' else if ch = CHR ''D'' then CHR ''d''
      else if ch = CHR ''E'' then CHR ''e'' else if ch = CHR ''F'' then CHR ''f'' else ch)"

definition hexObjectId :: "string \<Rightarrow> string option" where
  "hexObjectId s =
     (if length s = 24 \<and> list_all isHexDigit s then Some (map lowerHex s) else None)"

text \<open>The scenario of the specification: two widgets at 10 and one gadget at 5.\<close>

definition shopConfig :: config where
  "shopConfig = \<lparr>default_address = ''ADDRESS_NOT_SET'', default_payment_option = ''PAYMENT_OPTION_DEFAULT''\<rparr>"

definition widgetId :: string where
  "widgetId = ''5f71c1ca04c69a5874e9fd45''"

definition widgetIdUpper :: string where
  "widgetIdUpper = ''5F71C1CA04C69A5874E9FD45''"

definition gadgetId :: string where
  "gadgetId = ''5f71c1ca04c69a5874e9fd46''"

definition gizmoId :: string where
  "gizmoId = ''5f71c1ca04c69a5874e9fd47''"

definition widget :: product where
  "widget = \<lparr>product_id = widgetId, cost = Num 10\<rparr>"

definition gadget :: product where
  "gadget = \<lparr>product_id = gadgetId, cost = Num 5\<rparr>"

definition gizmo :: product where
  "gizmo = \<lparr>product_id = gizmoId, cost = Num 1\<rparr>"

definition shopCart :: cart where
  "shopCart = \<lparr>cartItems = [\<lparr>product = widget, quantity = Num 2\<rparr>,
                             \<lparr>product = gadget, quantity = Num 1\<rparr>],
               paymentOption = ''PAYMENT_OPTION_DEFAULT''\<rparr>"

definition alice :: user where
  "alice = \<lparr>uid = ''u1'', email = ''alice@example.com'', password = ''pw1'',
            walletMoney = Num 30, address = ''12 Main Street''\<rparr>"

definition shop :: db where
  "shop = \<lparr>users = [''u1'' \<mapsto> alice], carts = [''alice@example.com'' \<mapsto> shopCart],
           products = [widget, gadget, gizmo]\<rparr>"

text \<open>A world in which every call of the persistence layer completes.\<close>

definition storeUp :: io where
  "storeUp = \<lparr>cart_find_fails = False, product_find_fails = False, create_fails = False,
              cart_save_fails = False, user_save_fails = False, update_fails = False,
              bcrypt_hash = (\<lambda>p. ''$2a$10$'' @ p), castObjectId = hexObjectId\<rparr>"

text \<open>A world in which the save of a cart rejects and every other call completes.\<close>

definition cartStoreDown :: io where
  "cartStoreDown = storeUp\<lparr>cart_save_fails := True\<rparr>"

text \<open>A world in which the save of a user rejects and every other call completes.\<close>

definition userStoreDown :: io where
  "userStoreDown = storeUp\<lparr>user_save_fails := True\<rparr>"

text \<open>A cart in which two lines have the same product, and the shop with that cart.\<close>

definition twoWidgets :: cart where
  "twoWidgets = \<lparr>cartItems = [\<lparr>product = widget, quantity = Num 1\<rparr>,
                               \<lparr>product = widget, quantity = Num 2\<rparr>],
                 paymentOption = ''PAYMENT_OPTION_DEFAULT''\<rparr>"

definition shop2 :: db where
  "shop2 = shop\<lparr>carts := [''alice@example.com'' \<mapsto> twoWidgets]\<rparr>"

text \<open>The shop before anybody has a cart.\<close>

definition emptyShop :: db where
  "emptyShop = shop\<lparr>carts := Map.empty\<rparr>"

text \<open>
  Requests of one user: the same product added twice, an addition whose save rejects, then
  more.
\<close>

definition someRequests :: "(io \<times> request) list" where
  "someRequests = [(storeUp, AddItem widgetId (Num 3)), (storeUp, AddItem widgetId (Num 3)),
     (cartStoreDown, AddItem gadgetId (Num 4)), (storeUp, AddItem gadgetId (Num 1)),
     (storeUp, UpdateItem widgetId (Num 5)), (storeUp, RemoveItem gadgetId)]"

text \<open>The same product added twice, its id spelled in lower case and then in upper case.\<close>

definition respelledRequests :: "(io \<times> request) list" where
  "respelledRequests = [(storeUp, AddItem widgetId (Num 3)), (storeUp, AddItem widgetIdUpper (Num 3))]"

text \<open>
  Large amounts: a cart of one item at \<open>2 ^ 53 - 1\<close> and one at 2, and a wallet of
  \<open>2 ^ 53 + 2\<close>; each of the three is a double.
\<close>

definition bigCart :: cart where
  "bigCart = \<lparr>cartItems = [\<lparr>product = \<lparr>product_id = widgetId, cost = Num 9007199254740991\<rparr>,
                             quantity = Num 1\<rparr>,
                            \<lparr>product = \<lparr>product_id = gadgetId, cost = Num 2\<rparr>, quantity = Num 1\<rparr>],
              paymentOption = ''PAYMENT_OPTION_DEFAULT''\<rparr>"

definition rich :: user where
  "rich = alice\<lparr>walletMoney := Num 9007199254740994\<rparr>"

definition bigShop :: db where
  "bigShop = \<lparr>users = [''u1'' \<mapsto> rich], carts = [''alice@example.com'' \<mapsto> bigCart],
              products = [widget, gadget, gizmo]\<rparr>"

section \<open>Rounding to a double\<close>

text \<open>Whole numbers of magnitude up to \<open>2 ^ 53\<close> are doubles: rounding leaves them as they are.\<close>

lemma roundTiesToEven_of_int: "roundTiesToEven (of_int k) = k"
  by (simp add: roundTiesToEven_def)

lemma flog2_of_int:
  assumes "0 < n"
  shows "flog2 (of_int n) = bitlen n - 1"
proof -
  from bitlen_bounds [OF assms] have "2 ^ nat (bitlen n - 1) \<le> n" by simp
  then have "(of_int (2 ^ nat (bitlen n - 1)) :: rat) \<le> of_int n"
    by (simp only: of_int_le_iff)
  moreover have "1 \<le> bitlen n" using assms bitlen_eq_zero_iff [of n] bitlen_nonneg [of n] by linarith
  then have "power_int (2::rat) (bitlen n - 1) = 2 ^ nat (bitlen n - 1)"
    by (simp add: power_int_def)
  ultimately have "power_int (2::rat) (bitlen n - 1) \<le> of_int n" by simp
  moreover have "bitlen 1 = 1" by (simp add: bitlen_alt_def)
  ultimately show ?thesis
    by (simp add: flog2_def quotient_of_int [unfolded Rat.of_int_def [symmetric]] Let_def)
qed

lemma roundToDouble_pos_int:
  assumes "0 < n" and "n \<le> 2 ^ 53"
  shows "roundToDouble (of_int n) = Num (of_int n)"
proof -
  define d where "d = bitlen n - 1"
  have d0: "0 \<le> d" using assms(1) bitlen_eq_zero_iff [of n] bitlen_nonneg [of n]
    unfolding d_def by linarith
  from bitlen_bounds [OF assms(1)] have lo: "2 ^ nat d \<le> n" unfolding d_def by simp
  with assms(2) have "(2::int) ^ nat d \<le> 2 ^ 53" by linarith
  from power_le_imp_le_exp [OF _ this] have "nat d \<le> 53" by simp
  then have d53: "d \<le> 53" using d0 by linarith
  have a: "\<bar>of_int n :: rat\<bar> = of_int n" using assms(1) by simp
  have fl: "flog2 (of_int n) = d"
    using flog2_of_int [OF assms(1)] by (simp add: d_def)
  have small: "(of_int n :: rat) < 2 ^ 1024"
  proof -
    have "n < 2 ^ 1024" using assms(2) by (rule order_le_less_trans) simp
    then have "(of_int n :: rat) < of_int (2 ^ 1024)" by (simp only: of_int_less_iff)
    then show ?thesis by simp
  qed
  have y: "of_int (roundTiesToEven (of_int n / power_int 2 (max (d - 52) (- 1074))))
             * power_int 2 (max (d - 52) (- 1074)) = (of_int n :: rat)"
  proof (cases "d \<le> 52")
    case True
    define k where "k = nat (52 - d)"
    have s: "max (d - 52) (- 1074) = - int k" using True d0 by (simp add: k_def)
    have p: "power_int (2::rat) (- int k) = inverse (2 ^ k)"
      by (simp add: power_int_minus)
    have q: "of_int n / inverse ((2::rat) ^ k) = of_int (n * 2 ^ k)"
      by (simp add: field_simps)
    have "of_int (n * 2 ^ k) * inverse ((2::rat) ^ k) = of_int n"
      by (simp add: field_simps)
    then show ?thesis
      unfolding s p q roundTiesToEven_of_int .
  next
    case False
    with d53 have d: "d = 53" by simp
    with lo assms(2) have n: "n = 2 ^ 53" by simp
    have s: "max (d - 52) (- 1074) = 1" unfolding d by simp
    have p: "power_int (2::rat) 1 = 2" by simp
    have q: "(of_int n :: rat) / 2 = of_int (2 ^ 52)" unfolding n by simp
    have "(of_int (2 ^ 52) :: rat) * 2 = of_int n" unfolding n by simp
    then show ?thesis
      unfolding s p q roundTiesToEven_of_int .
  qed
  show ?thesis
    unfolding roundToDouble_def a Let_def fl y
    using assms(1) small by simp
qed

lemma roundToDouble_neg: "roundToDouble (- x) = (case roundToDouble x of Num r \<Rightarrow> Num (- r) | Infinity \<Rightarrow> NegInfinity | NegInfinity \<Rightarrow> Infinity | NaN \<Rightarrow> NaN)"
  by (simp add: roundToDouble_def Let_def)

lemma roundToDouble_int:
  assumes "\<bar>n\<bar> \<le> 2 ^ 53"
  shows "roundToDouble (of_int n) = Num (of_int n)"
proof (cases n "0::int" rule: linorder_cases)
  case equal
  then show ?thesis by (simp add: roundToDouble_def)
next
  case greater
  with assms show ?thesis by (simp add: roundToDouble_pos_int)
next
  case less
  with assms have "roundToDouble (of_int (- n)) = Num (of_int (- n))"
    by (intro roundToDouble_pos_int) simp_all
  then show ?thesis
    using roundToDouble_neg [of "of_int (- n)"] by simp
qed

lemma roundToDouble_exact:
  assumes "r \<in> \<int>" and "\<bar>r\<bar> \<le> 9007199254740992"
  shows "roundToDouble r = Num r"
proof -
  from assms(1) obtain n where n: "r = of_int n" by (auto elim: Ints_cases)
  from assms(2) have "(of_int \<bar>n\<bar> :: rat) \<le> of_int 9007199254740992"
    unfolding n by simp
  then have "\<bar>n\<bar> \<le> 9007199254740992" by (simp only: of_int_le_iff)
  then have "\<bar>n\<bar> \<le> 2 ^ 53" by simp
  from roundToDouble_int [OF this] show ?thesis unfolding n .
qed


text \<open>\<open>2 ^ 53 + 1\<close> lies half way between two doubles and goes to the even one, \<open>2 ^ 53\<close>.\<close>

lemma roundToDouble_tie: "roundToDouble 9007199254740993 = Num 9007199254740992"
  by code_simp

lemma roundToDouble_not_negative: "0 \<le> x \<Longrightarrow> \<not> js_lt (roundToDouble x) (Num 0)"
proof -
  assume x: "0 \<le> x"
  have "0 \<le> of_int (roundTiesToEven (\<bar>x\<bar> / power_int 2 s)) * power_int (2::rat) s" for s
  proof -
    have "0 \<le> \<bar>x\<bar> / power_int (2::rat) s" by simp
    then have "0 \<le> roundTiesToEven (\<bar>x\<bar> / power_int 2 s)"
      by (auto simp: roundTiesToEven_def Let_def)
    then show ?thesis by simp
  qed
  with x show ?thesis
    by (auto simp: roundToDouble_def Let_def not_less)
qed

lemma js_sub_negative: "js_lt (js_sub x y) (Num 0) \<Longrightarrow> js_gt y x"
proof (cases x; cases y)
  fix a b assume xy: "x = Num a" "y = Num b" and neg: "js_lt (js_sub x y) (Num 0)"
  have "a - b < 0"
  proof (rule ccontr)
    assume "\<not> a - b < 0"
    then have "0 \<le> a + - b" by simp
    from roundToDouble_not_negative [OF this] neg xy show False by (simp add: js_sub_def)
  qed
  with xy show "js_gt y x" by (simp add: js_gt_def)
qed (simp_all add: js_sub_def js_gt_def)

lemma js_sub_self: "js_sub (Num a) (Num a) = Num 0"
  by (simp add: js_sub_def roundToDouble_def)

section \<open>The computed total\<close>

lemma js_mul_commute: "js_mul x y = js_mul y x"
  by (cases x; cases y) (simp_all add: mult.commute)

lemma foldl_map_total:
  "foldl (\<lambda>total x. js_add total x) a (map (\<lambda>item. js_mul (cost (product item)) (quantity item)) items)
     = foldl (\<lambda>sum item. js_add sum (js_mul (quantity item) (cost (product item)))) a items"
  by (induction items arbitrary: a) (simp_all add: js_mul_commute)

lemma checkout_total:
  "foldl (\<lambda>total x. js_add total x) (Num 0)
     (map (\<lambda>item. js_mul (cost (product item)) (quantity item)) items) = computedTotal items"
  by (simp add: foldl_map_total computedTotal_def)

lemma isInteger_cases:
  assumes "isInteger x"
  obtains a where "x = Num a" and "a \<in> \<int>"
proof (cases x)
  case (Num a)
  with assms have "of_int \<lfloor>a\<rfloor> = a" by simp
  then have "a \<in> \<int>" by (metis Ints_of_int)
  with Num show ?thesis by (rule that)
qed (use assms in simp_all)

lemma absTotal_nonneg: "0 \<le> absTotal items"
  by (induction items) (simp_all add: absTotal_def)

lemma exactTotal_le_absTotal: "\<bar>exactTotal items\<bar> \<le> absTotal items"
proof (induction items)
  case Nil
  then show ?case by (simp add: exactTotal_def absTotal_def)
next
  case (Cons item items)
  have "\<bar>exactTotal (item # items)\<bar>
          \<le> \<bar>val (quantity item) * val (cost (product item))\<bar> + \<bar>exactTotal items\<bar>"
    by (simp add: exactTotal_def abs_triangle_ineq)
  with Cons show ?case by (simp add: absTotal_def)
qed

lemma exactTotal_integer:
  "\<forall>item \<in> set items. isInteger (quantity item) \<and> isInteger (cost (product item)) \<Longrightarrow>
   exactTotal items \<in> \<int>"
proof (induction items)
  case Nil
  then show ?case by (simp add: exactTotal_def)
next
  case (Cons item items)
  then have "isInteger (quantity item)" "isInteger (cost (product item))"
    "exactTotal items \<in> \<int>" by simp_all
  then show ?case
    by (auto elim!: isInteger_cases simp: exactTotal_def)
qed

lemma computed_from:
  assumes "a \<in> \<int>"
    and "\<forall>item \<in> set items. isInteger (quantity item) \<and> isInteger (cost (product item))"
    and "\<bar>a\<bar> + absTotal items \<le> 2 ^ 53"
  shows "foldl (\<lambda>sum item. js_add sum (js_mul (quantity item) (cost (product item)))) (Num a) items
           = Num (a + exactTotal items)"
  using assms
proof (induction items arbitrary: a)
  case Nil
  then show ?case by (simp add: exactTotal_def)
next
  case (Cons item items)
  from Cons.prems(2) obtain q c where q: "quantity item = Num q" "q \<in> \<int>"
    and c: "cost (product item) = Num c" "c \<in> \<int>"
    by (auto elim!: isInteger_cases)
  have split: "absTotal (item # items) = \<bar>q * c\<bar> + absTotal items"
    "exactTotal (item # items) = q * c + exactTotal items"
    by (simp_all add: absTotal_def exactTotal_def q c)
  from Cons.prems(3) have bound: "\<bar>a\<bar> + \<bar>q * c\<bar> + absTotal items \<le> 9007199254740992"
    unfolding split by simp
  have rest: "0 \<le> absTotal items" by (rule absTotal_nonneg)
  have "\<bar>q * c\<bar> \<le> 9007199254740992" using bound rest by linarith
  with q c have mul: "roundToDouble (q * c) = Num (q * c)"
    by (simp add: roundToDouble_exact)
  have "\<bar>a + q * c\<bar> \<le> 9007199254740992" using bound rest by linarith
  with Cons.prems(1) q c have add: "roundToDouble (a + q * c) = Num (a + q * c)"
    by (simp add: roundToDouble_exact)
  have "a + q * c \<in> \<int>" using Cons.prems(1) q c by simp
  moreover have "\<forall>item \<in> set items. isInteger (quantity item) \<and> isInteger (cost (product item))"
    using Cons.prems(2) by simp
  moreover have "\<bar>a + q * c\<bar> + absTotal items \<le> 2 ^ 53" using bound by simp
  ultimately have "foldl (\<lambda>sum item. js_add sum (js_mul (quantity item) (cost (product item))))
      (Num (a + q * c)) items = Num (a + q * c + exactTotal items)"
    by (rule Cons.IH)
  then show ?case by (simp add: q c mul add split add.assoc)
qed

lemma computedTotal_exact:
  assumes "safeAmounts u items"
  shows "computedTotal items = Num (exactTotal items)"
proof -
  from assms have ints: "\<forall>item \<in> set items. isInteger (quantity item) \<and> isInteger (cost (product item))"
    and bound: "\<bar>val (walletMoney u)\<bar> + absTotal items \<le> 2 ^ 53"
    by (simp_all add: safeAmounts_def)
  have "\<bar>0::rat\<bar> + absTotal items \<le> 2 ^ 53" using bound by simp
  from computed_from [OF _ ints this] show ?thesis by (simp add: computedTotal_def)
qed

lemma debit_exact:
  assumes "safeAmounts u items"
  shows "js_sub (walletMoney u) (computedTotal items)
           = Num (val (walletMoney u) - exactTotal items)"
proof -
  from assms obtain w where w: "walletMoney u = Num w" "w \<in> \<int>"
    by (auto simp: safeAmounts_def elim!: isInteger_cases)
  from assms have ints: "\<forall>item \<in> set items. isInteger (quantity item) \<and> isInteger (cost (product item))"
    and bound: "\<bar>w\<bar> + absTotal items \<le> 9007199254740992"
    by (simp_all add: safeAmounts_def w)
  have "\<bar>w - exactTotal items\<bar> \<le> \<bar>w\<bar> + \<bar>exactTotal items\<bar>" by (rule abs_triangle_ineq4)
  with exactTotal_le_absTotal [of items] bound
  have "\<bar>w - exactTotal items\<bar> \<le> 9007199254740992" by linarith
  moreover have "w - exactTotal items \<in> \<int>"
    using w(2) exactTotal_integer [OF ints] by simp
  ultimately have "roundToDouble (w - exactTotal items) = Num (w - exactTotal items)"
    by (intro roundToDouble_exact)
  then show ?thesis
    by (simp add: computedTotal_exact [OF assms] w js_sub_def)
qed

section \<open>Checkout\<close>

lemmas store_defs = Cart_findOne_def Cart_create_def cart_save_def

lemmas shop_defs = shop_def alice_def shopCart_def shopConfig_def storeUp_def widget_def gadget_def
  gizmo_def

lemma computedTotal_empty: "computedTotal [] = Num 0"
  by (simp add: computedTotal_def)

lemma computedTotal_shopCart: "computedTotal (cartItems shopCart) = Num 25"
  by (simp add: computedTotal_def shopCart_def widget_def gadget_def roundToDouble_exact)

lemma checkout_settled:
  assumes "carts d (email u) = Some c" and "cartItems c \<noteq> []"
    and "address u \<noteq> default_address cfg"
    and "\<not> js_lt (js_sub (walletMoney u) (computedTotal (cartItems c))) (Num 0)"
    and "\<not> cart_find_fails w" and "\<not> user_save_fails w" and "\<not> cart_save_fails w"
  shows "checkout cfg w d u =
    (Inr (), d\<lparr>users := (users d)(uid u \<mapsto>
                 u\<lparr>walletMoney := js_sub (walletMoney u) (computedTotal (cartItems c)),
                    password := bcrypt_hash w (password u)\<rparr>),
              carts := (carts d)(email u \<mapsto> c\<lparr>cartItems := []\<rparr>)\<rparr>)"
  using assms
  by (simp add: checkout_def getCartByUser_def Cart_findOne_def checkout_total Let_def
      user_save_def cart_save_def pre_save_def)

lemma checkout_p1_settled:
  assumes "carts d (email u) = Some c" and "cartItems c \<noteq> []"
    and "address u \<noteq> default_address cfg"
    and "\<not> js_gt (computedTotal (cartItems c)) (walletMoney u)"
    and "\<not> cart_find_fails w" and "\<not> user_save_fails w" and "\<not> cart_save_fails w"
  shows "checkout_p1 cfg w d u =
    (Inr (), d\<lparr>users := (users d)(uid u \<mapsto>
                 u\<lparr>walletMoney := js_sub (walletMoney u) (computedTotal (cartItems c)),
                    password := bcrypt_hash w (password u)\<rparr>),
              carts := (carts d)(email u \<mapsto> c\<lparr>cartItems := []\<rparr>)\<rparr>)"
  using assms
  by (simp add: checkout_p1_def Cart_findOne_def computedTotal_def [symmetric] Let_def
      hasSetNonDefaultAddress_def user_save_def cart_save_def pre_save_def)

lemma checkout_insufficient:
  assumes "carts d (email u) = Some c" and "cartItems c \<noteq> []"
    and "address u \<noteq> default_address cfg"
    and "\<not> cart_find_fails w"
  shows "js_lt (js_sub (walletMoney u) (computedTotal (cartItems c))) (Num 0) \<Longrightarrow>
           checkout cfg w d u = (Inl (ApiError BAD_REQUEST ''Balance insufficient''), d)"
    and "js_gt (computedTotal (cartItems c)) (walletMoney u) \<Longrightarrow>
           checkout_p1 cfg w d u =
             (Inl (ApiError BAD_REQUEST ''User wallet balance is insufficien''), d)"
  using assms
  by (simp_all add: checkout_def checkout_p1_def getCartByUser_def Cart_findOne_def
      checkout_total computedTotal_def [symmetric] Let_def hasSetNonDefaultAddress_def)

text \<open>
  C1, as stated, fails: the debit is computed on doubles and is not always exactly the sum.
  With a wallet of \<open>2 ^ 53 + 2\<close> and a cart of one item at \<open>2 ^ 53 - 1\<close> and one at 2, the sum
  \<open>2 ^ 53 + 1\<close> is rounded to \<open>2 ^ 53\<close>; the checkout of either copy succeeds and stores a
  wallet of 2, while the old balance less the sum is 1.
\<close>

theorem checkout_rounds_the_total:
  "fst (checkout shopConfig storeUp bigShop rich) = Inr ()
   \<and> map_option walletMoney (users (snd (checkout shopConfig storeUp bigShop rich)) ''u1'')
       = Some (Num 2)
   \<and> fst (checkout_p1 shopConfig storeUp bigShop rich) = Inr ()
   \<and> map_option walletMoney (users (snd (checkout_p1 shopConfig storeUp bigShop rich)) ''u1'')
       = Some (Num 2)
   \<and> val (walletMoney rich) - exactTotal (cartItems bigCart) = 1"
proof -
  have total: "computedTotal (cartItems bigCart) = Num 9007199254740992"
    by (simp add: computedTotal_def bigCart_def roundToDouble_exact roundToDouble_tie)
  have debit: "js_sub (walletMoney rich) (computedTotal (cartItems bigCart)) = Num 2"
    unfolding total by (simp add: rich_def js_sub_def roundToDouble_exact)
  have gate: "\<not> js_gt (computedTotal (cartItems bigCart)) (walletMoney rich)"
    unfolding total by (simp add: rich_def js_gt_def)
  have 1: "carts bigShop (email rich) = Some bigCart"
    by (simp add: bigShop_def rich_def alice_def)
  have 2: "cartItems bigCart \<noteq> []" by (simp add: bigCart_def)
  have 3: "address rich \<noteq> default_address shopConfig"
    by (simp add: rich_def alice_def shopConfig_def)
  have 4: "\<not> js_lt (js_sub (walletMoney rich) (computedTotal (cartItems bigCart))) (Num 0)"
    unfolding debit by simp
  have 5: "\<not> cart_find_fails storeUp" "\<not> user_save_fails storeUp" "\<not> cart_save_fails storeUp"
    by (simp_all add: storeUp_def)
  have 6: "uid rich = ''u1''" by (simp add: rich_def alice_def)
  have 7: "val (walletMoney rich) - exactTotal (cartItems bigCart) = 1"
    by (simp add: rich_def bigCart_def exactTotal_def)
  show ?thesis
    unfolding checkout_settled [OF 1 2 3 4 5] checkout_p1_settled [OF 1 2 3 gate 5] debit
    using 6 7 by simp
qed

text \<open>
  C1, amended. For every user with a non-empty cart, an address other than the default and a
  wallet of at least the total, where wallet, quantities and costs are whole numbers whose
  magnitudes (the wallet's and those of the cart's lines) add up to \<open>2 ^ 53\<close> at most: the
  checkout of either copy succeeds (the persistence layer completing its calls); afterwards
  the stored cart has no items, the stored wallet is exactly the old one less the sum over
  the cart's items of quantity times cost, this balance is not negative, and no other user
  document and no other cart has changed.
\<close>

theorem checkout_postcondition:
  assumes "carts d (email u) = Some c" and "cartItems c \<noteq> []"
    and "address u \<noteq> default_address cfg"
    and "safeAmounts u (cartItems c)"
    and "exactTotal (cartItems c) \<le> val (walletMoney u)"
    and "\<not> cart_find_fails w" and "\<not> user_save_fails w" and "\<not> cart_save_fails w"
  shows "checkoutPost (checkout cfg w d u) d u c \<and> checkoutPost (checkout_p1 cfg w d u) d u c"
proof -
  note debit = debit_exact [OF assms(4)]
  from assms(4) obtain a where a: "walletMoney u = Num a"
    by (auto simp: safeAmounts_def elim!: isInteger_cases)
  have gateA: "\<not> js_lt (js_sub (walletMoney u) (computedTotal (cartItems c))) (Num 0)"
    unfolding debit using assms(5) by simp
  have gateB: "\<not> js_gt (computedTotal (cartItems c)) (walletMoney u)"
    unfolding computedTotal_exact [OF assms(4)] using assms(5) by (simp add: a js_gt_def)
  show ?thesis
    unfolding checkout_settled [OF assms(1-3) gateA assms(6-8)]
      checkout_p1_settled [OF assms(1-3) gateB assms(6-8)] debit
    using assms(5) by (simp add: checkoutPost_def)
qed

theorem checkout_postcondition_witness:
  "checkoutPost (checkout shopConfig storeUp shop alice) shop alice shopCart
   \<and> checkoutPost (checkout_p1 shopConfig storeUp shop alice) shop alice shopCart
   \<and> val (walletMoney alice) - exactTotal (cartItems shopCart) = 5"
proof -
  have 1: "carts shop (email alice) = Some shopCart" by (simp add: shop_defs)
  have 2: "cartItems shopCart \<noteq> []" by (simp add: shop_defs)
  have 3: "address alice \<noteq> default_address shopConfig" by (simp add: shop_defs)
  have 4: "safeAmounts alice (cartItems shopCart)"
    by (simp add: safeAmounts_def absTotal_def shop_defs)
  have 5: "exactTotal (cartItems shopCart) \<le> val (walletMoney alice)"
    by (simp add: exactTotal_def shop_defs)
  have 6: "\<not> cart_find_fails storeUp" "\<not> user_save_fails storeUp" "\<not> cart_save_fails storeUp"
    by (simp_all add: storeUp_def)
  have "val (walletMoney alice) - exactTotal (cartItems shopCart) = 5"
    by (simp add: exactTotal_def shop_defs)
  with checkout_postcondition [OF 1 2 3 4 5 6] show ?thesis by simp
qed

text \<open>
  C9. For every checkout of a non-empty cart with an address other than the default (the
  persistence layer completing its calls): when the total the service computes equals the
  wallet, a finite number, the checkout of either copy succeeds and the stored wallet is
  exactly zero; the checkout fails for lack of balance only when the computed total is
  strictly greater than the wallet (in the second copy: exactly then).
\<close>

theorem checkout_exact_balance:
  assumes "carts d (email u) = Some c" and "cartItems c \<noteq> []"
    and "address u \<noteq> default_address cfg"
    and "\<not> cart_find_fails w" and "\<not> user_save_fails w" and "\<not> cart_save_fails w"
  shows "(walletMoney u = Num r \<and> computedTotal (cartItems c) = Num r \<longrightarrow>
            fst (checkout cfg w d u) = Inr ()
            \<and> map_option walletMoney (users (snd (checkout cfg w d u)) (uid u)) = Some (Num 0)
            \<and> fst (checkout_p1 cfg w d u) = Inr ()
            \<and> map_option walletMoney (users (snd (checkout_p1 cfg w d u)) (uid u)) = Some (Num 0))
       \<and> (fst (checkout cfg w d u) = Inl (ApiError BAD_REQUEST ''Balance insufficient'')
            \<longrightarrow> js_gt (computedTotal (cartItems c)) (walletMoney u))
       \<and> (fst (checkout_p1 cfg w d u) = Inl (ApiError BAD_REQUEST ''User wallet balance is insufficien'')
            \<longleftrightarrow> js_gt (computedTotal (cartItems c)) (walletMoney u))"
proof (intro conjI impI)
  assume eq: "walletMoney u = Num r \<and> computedTotal (cartItems c) = Num r"
  then have debit: "js_sub (walletMoney u) (computedTotal (cartItems c)) = Num 0"
    by (simp add: js_sub_self)
  have gateA: "\<not> js_lt (js_sub (walletMoney u) (computedTotal (cartItems c))) (Num 0)"
    unfolding debit by simp
  have gateB: "\<not> js_gt (computedTotal (cartItems c)) (walletMoney u)"
    using eq by (simp add: js_gt_def)
  show "fst (checkout cfg w d u) = Inr ()"
    "map_option walletMoney (users (snd (checkout cfg w d u)) (uid u)) = Some (Num 0)"
    unfolding checkout_settled [OF assms(1-3) gateA assms(4-6)] debit by simp_all
  show "fst (checkout_p1 cfg w d u) = Inr ()"
    "map_option walletMoney (users (snd (checkout_p1 cfg w d u)) (uid u)) = Some (Num 0)"
    unfolding checkout_p1_settled [OF assms(1-3) gateB assms(4-6)] debit by simp_all
next
  assume fails: "fst (checkout cfg w d u) = Inl (ApiError BAD_REQUEST ''Balance insufficient'')"
  have "js_lt (js_sub (walletMoney u) (computedTotal (cartItems c))) (Num 0)"
  proof (rule ccontr)
    assume "\<not> js_lt (js_sub (walletMoney u) (computedTotal (cartItems c))) (Num 0)"
    from checkout_settled [OF assms(1-3) this assms(4-6)] fails show False by simp
  qed
  then show "js_gt (computedTotal (cartItems c)) (walletMoney u)" by (rule js_sub_negative)
next
  show "(fst (checkout_p1 cfg w d u) = Inl (ApiError BAD_REQUEST ''User wallet balance is insufficien''))
          = js_gt (computedTotal (cartItems c)) (walletMoney u)"
  proof (cases "js_gt (computedTotal (cartItems c)) (walletMoney u)")
    case True
    with checkout_insufficient(2) [OF assms(1-4) True] show ?thesis by simp
  next
    case False
    with checkout_p1_settled [OF assms(1-3) False assms(4-6)] show ?thesis by simp
  qed
qed

theorem checkout_exact_balance_witness:
  "fst (checkout shopConfig storeUp shop (alice\<lparr>walletMoney := Num 25\<rparr>)) = Inr ()
   \<and> map_option walletMoney
        (users (snd (checkout shopConfig storeUp shop (alice\<lparr>walletMoney := Num 25\<rparr>))) ''u1'')
       = Some (Num 0)
   \<and> fst (checkout_p1 shopConfig storeUp shop (alice\<lparr>walletMoney := Num 25\<rparr>)) = Inr ()
   \<and> map_option walletMoney
        (users (snd (checkout_p1 shopConfig storeUp shop (alice\<lparr>walletMoney := Num 25\<rparr>))) ''u1'')
       = Some (Num 0)"
proof -
  let ?u = "alice\<lparr>walletMoney := Num 25\<rparr>"
  have 1: "carts shop (email ?u) = Some shopCart" by (simp add: shop_defs)
  have 2: "cartItems shopCart \<noteq> []" by (simp add: shop_defs)
  have 3: "address ?u \<noteq> default_address shopConfig" by (simp add: shop_defs)
  have 4: "\<not> cart_find_fails storeUp" "\<not> user_save_fails storeUp" "\<not> cart_save_fails storeUp"
    by (simp_all add: storeUp_def)
  have 5: "walletMoney ?u = Num 25 \<and> computedTotal (cartItems shopCart) = Num 25"
    by (simp add: computedTotal_shopCart)
  have 6: "uid ?u = ''u1''" by (simp add: alice_def)
  from checkout_exact_balance [OF 1 2 3 4, of 25] 5 show ?thesis unfolding 6 by blast
qed

text \<open>
  C5. For every checkout of a user whose address is the default one and whose computed cart
  total exceeds the wallet (a wallet that is not negative, as the data model has it, so that
  the cart has items), the checkout of either copy fails with the error of the address, not
  with that of the balance, and leaves the store as it was.
\<close>

theorem checkout_address_gate_first:
  assumes "carts d (email u) = Some c"
    and "address u = default_address cfg"
    and "js_le (Num 0) (walletMoney u)"
    and "js_lt (walletMoney u) (computedTotal (cartItems c))"
    and "\<not> cart_find_fails w"
  shows "checkout cfg w d u = (Inl (ApiError BAD_REQUEST '' Address unavailable''), d)
       \<and> checkout_p1 cfg w d u = (Inl (ApiError BAD_REQUEST ''Address Not Set''), d)"
proof -
  have "cartItems c \<noteq> []"
  proof
    assume "cartItems c = []"
    with assms(4) have "js_lt (walletMoney u) (Num 0)" by (simp add: computedTotal_empty)
    with assms(3) show False
      by (cases "walletMoney u") (simp_all add: js_le_def)
  qed
  with assms(1,2,5) show ?thesis
    by (simp add: checkout_def checkout_p1_def getCartByUser_def Cart_findOne_def
        hasSetNonDefaultAddress_def)
qed

theorem checkout_address_gate_first_witness:
  "checkout shopConfig storeUp shop (alice\<lparr>walletMoney := Num 20, address := ''ADDRESS_NOT_SET''\<rparr>)
     = (Inl (ApiError BAD_REQUEST '' Address unavailable''), shop)
   \<and> checkout_p1 shopConfig storeUp shop (alice\<lparr>walletMoney := Num 20, address := ''ADDRESS_NOT_SET''\<rparr>)
     = (Inl (ApiError BAD_REQUEST ''Address Not Set''), shop)"
proof -
  let ?u = "alice\<lparr>walletMoney := Num 20, address := ''ADDRESS_NOT_SET''\<rparr>"
  have 1: "carts shop (email ?u) = Some shopCart" by (simp add: shop_defs)
  have 2: "address ?u = default_address shopConfig" by (simp add: shop_defs)
  have 3: "js_le (Num 0) (walletMoney ?u)" by (simp add: js_le_def)
  have 4: "js_lt (walletMoney ?u) (computedTotal (cartItems shopCart))"
    by (simp add: computedTotal_shopCart)
  have 5: "\<not> cart_find_fails storeUp" by (simp add: storeUp_def)
  from checkout_address_gate_first [OF 1 2 3 4 5] show ?thesis .
qed

text \<open>
  C2, as stated, fails: the two writes of a checkout are not one transaction. When the save
  of the cart rejects after the save of the user has completed, the store keeps the debited
  wallet (5 instead of 30) together with the cart that still has its items.
\<close>

theorem checkout_not_atomic:
  "fst (checkout shopConfig cartStoreDown shop alice) = Inl StoreError
   \<and> map_option walletMoney (users (snd (checkout shopConfig cartStoreDown shop alice)) ''u1'')
       = Some (Num 5)
   \<and> map_option cartItems (carts (snd (checkout shopConfig cartStoreDown shop alice)) ''alice@example.com'')
       = Some [\<lparr>product = widget, quantity = Num 2\<rparr>, \<lparr>product = gadget, quantity = Num 1\<rparr>]
   \<and> map_option walletMoney (users shop ''u1'') = Some (Num 30)"
proof -
  have debit: "js_sub (Num 30) (computedTotal (cartItems shopCart)) = Num 5"
    unfolding computedTotal_shopCart by (simp add: js_sub_def roundToDouble_exact)
  have ne: "cartItems shopCart \<noteq> []" by (simp add: shopCart_def)
  have "checkout shopConfig cartStoreDown shop alice
          = (Inl StoreError, shop\<lparr>users := (users shop)(''u1'' \<mapsto>
               alice\<lparr>walletMoney := Num 5, password := ''$2a$10$pw1''\<rparr>)\<rparr>)"
    using debit ne
    by (simp add: checkout_def getCartByUser_def Cart_findOne_def checkout_total Let_def
        user_save_def cart_save_def pre_save_def cartStoreDown_def shop_def alice_def
        shopConfig_def storeUp_def)
  then show ?thesis by (simp add: shop_def alice_def shopCart_def)
qed

text \<open>
  C2, amended. For every checkout that passes its checks, in either copy: if the write of the
  user's balance fails, nothing is written (the cart is not emptied, the balance is not
  debited) and the checkout fails with the rejection of the store; if the write of the cart
  fails after the balance was written, the checkout fails with the rejection of the store
  and the store keeps the debited balance while the cart keeps its items; the checkout
  reports success exactly when both writes completed.
\<close>

theorem checkout_two_writes:
  assumes "carts d (email u) = Some c" and "cartItems c \<noteq> []"
    and "address u \<noteq> default_address cfg"
    and "\<not> cart_find_fails w"
  shows "(\<not> js_lt (js_sub (walletMoney u) (computedTotal (cartItems c))) (Num 0) \<longrightarrow>
            (user_save_fails w \<longrightarrow> checkout cfg w d u = (Inl StoreError, d))
          \<and> (\<not> user_save_fails w \<and> cart_save_fails w \<longrightarrow>
                checkout cfg w d u =
                  (Inl StoreError, d\<lparr>users := (users d)(uid u \<mapsto>
                     u\<lparr>walletMoney := js_sub (walletMoney u) (computedTotal (cartItems c)),
                        password := bcrypt_hash w (password u)\<rparr>)\<rparr>))
          \<and> (fst (checkout cfg w d u) = Inr () \<longleftrightarrow> \<not> user_save_fails w \<and> \<not> cart_save_fails w))
       \<and> (\<not> js_gt (computedTotal (cartItems c)) (walletMoney u) \<longrightarrow>
            (user_save_fails w \<longrightarrow> checkout_p1 cfg w d u = (Inl StoreError, d))
          \<and> (\<not> user_save_fails w \<and> cart_save_fails w \<longrightarrow>
                checkout_p1 cfg w d u =
                  (Inl StoreError, d\<lparr>users := (users d)(uid u \<mapsto>
                     u\<lparr>walletMoney := js_sub (walletMoney u) (computedTotal (cartItems c)),
                        password := bcrypt_hash w (password u)\<rparr>)\<rparr>))
          \<and> (fst (checkout_p1 cfg w d u) = Inr () \<longleftrightarrow> \<not> user_save_fails w \<and> \<not> cart_save_fails w))"
  using assms
  by (simp add: checkout_def checkout_p1_def getCartByUser_def Cart_findOne_def checkout_total
      computedTotal_def [symmetric] Let_def hasSetNonDefaultAddress_def user_save_def
      cart_save_def pre_save_def)

theorem checkout_two_writes_witness:
  "checkout shopConfig cartStoreDown shop alice =
     (Inl StoreError, shop\<lparr>users := (users shop)(''u1'' \<mapsto>
         alice\<lparr>walletMoney := Num 5, password := ''$2a$10$pw1''\<rparr>)\<rparr>)
   \<and> checkout_p1 shopConfig cartStoreDown shop alice = checkout shopConfig cartStoreDown shop alice
   \<and> checkout shopConfig userStoreDown shop alice = (Inl StoreError, shop)
   \<and> checkout_p1 shopConfig userStoreDown shop alice = (Inl StoreError, shop)"
proof -
  have 1: "carts shop (email alice) = Some shopCart" by (simp add: shop_defs)
  have 2: "cartItems shopCart \<noteq> []" by (simp add: shop_defs)
  have 3: "address alice \<noteq> default_address shopConfig" by (simp add: shop_defs)
  have 4: "\<not> cart_find_fails cartStoreDown" "\<not> cart_find_fails userStoreDown"
    by (simp_all add: cartStoreDown_def userStoreDown_def storeUp_def)
  have debit: "js_sub (walletMoney alice) (computedTotal (cartItems shopCart)) = Num 5"
    unfolding computedTotal_shopCart by (simp add: alice_def js_sub_def roundToDouble_exact)
  have 5: "\<not> js_lt (js_sub (walletMoney alice) (computedTotal (cartItems shopCart))) (Num 0)"
    unfolding debit by simp
  have 6: "\<not> js_gt (computedTotal (cartItems shopCart)) (walletMoney alice)"
    unfolding computedTotal_shopCart by (simp add: alice_def js_gt_def)
  have 7: "\<not> user_save_fails cartStoreDown \<and> cart_save_fails cartStoreDown"
    "user_save_fails userStoreDown"
    by (simp_all add: cartStoreDown_def userStoreDown_def storeUp_def)
  have 8: "bcrypt_hash cartStoreDown (password alice) = ''$2a$10$pw1''" "uid alice = ''u1''"
    by (simp_all add: cartStoreDown_def storeUp_def alice_def)
  from checkout_two_writes [OF 1 2 3 4(1)] checkout_two_writes [OF 1 2 3 4(2)] 5 6 7
  show ?thesis unfolding debit 8 by simp
qed

section \<open>The search loops\<close>

lemma loop_no_match:
  "\<not> hasProduct productId items \<Longrightarrow> productIndexLoop productId items i idx = idx"
  by (induction items arbitrary: i idx) (auto simp: hasProduct_def)

lemma isLastMatch_Cons:
  "isLastMatch productId items n \<Longrightarrow> isLastMatch productId (item # items) (Suc n)"
  unfolding isLastMatch_def
  by (auto simp: nth_Cons split: nat.splits)

lemma isLastMatch_here:
  assumes "product_id (product item) = productId" and "\<not> hasProduct productId items"
  shows "isLastMatch productId (item # items) 0"
  unfolding isLastMatch_def
proof (intro conjI ballI)
  fix m assume m: "m \<in> {Suc 0 ..< length (item # items)}"
  then obtain k where k: "m = Suc k" by (cases m) auto
  with m have "items ! k \<in> set items" by simp
  with assms(2) k show "product_id (product ((item # items) ! m)) \<noteq> productId"
    by (auto simp: hasProduct_def)
qed (use assms in simp_all)

lemma loop_match:
  "hasProduct productId items \<Longrightarrow>
   \<exists>n. productIndexLoop productId items i idx = int (i + n) \<and> isLastMatch productId items n"
proof (induction items arbitrary: i idx)
  case Nil
  then show ?case by (simp add: hasProduct_def)
next
  case (Cons item items)
  show ?case
  proof (cases "hasProduct productId items")
    case True
    from Cons.IH [OF True, of "Suc i" "if productId = product_id (product item) then int i else idx"]
    obtain n where n:
      "productIndexLoop productId items (Suc i)
         (if productId = product_id (product item) then int i else idx) = int (Suc i + n)"
      "isLastMatch productId items n"
      by blast
    then show ?thesis
      by (intro exI [of _ "Suc n"]) (simp add: isLastMatch_Cons)
  next
    case False
    with Cons.prems have here: "product_id (product item) = productId"
      by (auto simp: hasProduct_def)
    with False show ?thesis
      by (intro exI [of _ 0]) (simp add: loop_no_match isLastMatch_here)
  qed
qed

lemma findProductIndex_none:
  "\<not> hasProduct productId items \<Longrightarrow> findProductIndex productId items = - 1"
  by (simp add: findProductIndex_def loop_no_match)

lemma findProductIndex_some:
  assumes "hasProduct productId items"
  obtains n where "findProductIndex productId items = int n" "isLastMatch productId items n"
  using loop_match [OF assms, of 0 "- 1"] unfolding findProductIndex_def by auto

lemma findProductIndex_iff:
  "findProductIndex productId items = - 1 \<longleftrightarrow> \<not> hasProduct productId items"
proof
  assume a: "findProductIndex productId items = - 1"
  show "\<not> hasProduct productId items"
  proof
    assume "hasProduct productId items"
    then obtain n where "findProductIndex productId items = int n"
      by (rule findProductIndex_some)
    with a show False by simp
  qed
qed (rule findProductIndex_none)

lemma filter_hasProduct:
  "(filter (\<lambda>cartItem. product_id (product cartItem) = productId) items = [])
     = (\<not> hasProduct productId items)"
  by (auto simp: hasProduct_def filter_empty_conv)

lemma updateLoop_p1_none:
  "\<not> hasProduct productId items \<Longrightarrow> updateLoop_p1 productId qty items = None"
  by (induction items) (auto simp: hasProduct_def)

lemma isFirstMatch_Cons:
  assumes "product_id (product item) \<noteq> productId" and "isFirstMatch productId items n"
  shows "isFirstMatch productId (item # items) (Suc n)"
  using assms unfolding isFirstMatch_def
  by (auto simp: nth_Cons less_Suc_eq_0_disj split: nat.splits)

lemma updateLoop_p1_some:
  "hasProduct productId items \<Longrightarrow>
   \<exists>n. isFirstMatch productId items n
      \<and> updateLoop_p1 productId qty items = Some (items[n := (items ! n)\<lparr>quantity := qty\<rparr>])"
proof (induction items)
  case Nil
  then show ?case by (simp add: hasProduct_def)
next
  case (Cons item items)
  show ?case
  proof (cases "product_id (product item) = productId")
    case True
    then show ?thesis
      by (intro exI [of _ 0]) (simp add: isFirstMatch_def)
  next
    case False
    with Cons.prems have "hasProduct productId items"
      by (auto simp: hasProduct_def)
    from Cons.IH [OF this] obtain n where n: "isFirstMatch productId items n"
      "updateLoop_p1 productId qty items = Some (items[n := (items ! n)\<lparr>quantity := qty\<rparr>])"
      by blast
    with False show ?thesis
      by (intro exI [of _ "Suc n"]) (simp add: isFirstMatch_Cons)
  qed
qed

section \<open>The cart manager\<close>

lemma productOf_carts: "productOf w (d\<lparr>carts := cs\<rparr>) productId = productOf w d productId"
  by (simp add: productOf_def split: option.splits)

lemma Product_findById_resolved:
  "\<not> product_find_fails w \<Longrightarrow> productOf w d productId = Some p \<Longrightarrow>
   Product_findById w d productId = Inr (Some p)"
  by (auto simp: Product_findById_def productOf_def split: option.splits)

lemma addProductToCart_duplicate:
  assumes "carts d (email u) = Some c" and "hasProduct productId (cartItems c)"
    and "\<not> cart_find_fails w"
  shows "addProductToCart cfg w d u productId qty =
           (Inl (ApiError BAD_REQUEST
              ''Product already in cart. Use the cart sidebar to update or remove product from cart''), d)"
    and "addProductToCart_p1 cfg w d u productId qty =
           (Inl (ApiError BAD_REQUEST
              ''Product already in cart. Use the cart sidebar to update or remove product from cart''), d)"
  using assms
  by (simp_all add: addProductToCart_def addProductToCart_p1_def Cart_findOne_def
      findProductIndex_iff filter_hasProduct)

lemma addProductToCart_existing:
  assumes "carts d (email u) = Some c" and "\<not> hasProduct productId (cartItems c)"
    and "productOf w d productId = Some p"
    and "\<not> cart_find_fails w" and "\<not> product_find_fails w" and "\<not> cart_save_fails w"
  shows "addProductToCart cfg w d u productId qty =
           (Inr (c\<lparr>cartItems := cartItems c @ [\<lparr>product = p, quantity = qty\<rparr>]\<rparr>),
            d\<lparr>carts := (carts d)(email u \<mapsto>
                 c\<lparr>cartItems := cartItems c @ [\<lparr>product = p, quantity = qty\<rparr>]\<rparr>)\<rparr>)"
    and "addProductToCart_p1 cfg w d u productId qty = addProductToCart cfg w d u productId qty"
  using assms
  by (simp_all add: addProductToCart_def addProductToCart_p1_def store_defs Product_findById_resolved productOf_carts
      findProductIndex_iff filter_hasProduct Let_def)

lemma addProductToCart_absent:
  assumes "carts d (email u) = None"
    and "productOf w d productId = Some p"
    and "\<not> cart_find_fails w" and "\<not> product_find_fails w" and "\<not> create_fails w" and "\<not> cart_save_fails w"
  shows "addProductToCart cfg w d u productId qty =
           (Inr \<lparr>cartItems = [\<lparr>product = p, quantity = qty\<rparr>],
                 paymentOption = default_payment_option cfg\<rparr>,
            d\<lparr>carts := (carts d)(email u \<mapsto>
                 \<lparr>cartItems = [\<lparr>product = p, quantity = qty\<rparr>],
                  paymentOption = default_payment_option cfg\<rparr>)\<rparr>)"
    and "addProductToCart_p1 cfg w d u productId qty = addProductToCart cfg w d u productId qty"
  using assms
  by (simp_all add: addProductToCart_def addProductToCart_p1_def store_defs Product_findById_resolved productOf_carts cartSchemaDefaults_def
      findProductIndex_def Let_def)

lemma updateProductInCart_missing:
  assumes "carts d (email u) = Some c" and "\<not> hasProduct productId (cartItems c)"
    and "productOf w d productId = Some p"
    and "\<not> cart_find_fails w" and "\<not> product_find_fails w"
  shows "updateProductInCart w d u productId qty =
           (Inl (ApiError BAD_REQUEST ''Product not in cart''), d)"
    and "updateProductInCart_p1 w d u productId qty =
           (Inl (ApiError BAD_REQUEST ''Product not in cart''), d)"
  using assms
  by (simp_all add: updateProductInCart_def updateProductInCart_p1_def store_defs Product_findById_resolved productOf_carts
      findProductIndex_iff updateLoop_p1_none Let_def)

lemma updateProductInCart_at:
  assumes "carts d (email u) = Some c"
    and "findProductIndex productId (cartItems c) = int n"
    and "productOf w d productId = Some p"
    and "\<not> cart_find_fails w" and "\<not> product_find_fails w" and "\<not> cart_save_fails w"
  shows "updateProductInCart w d u productId qty =
           (Inr (c\<lparr>cartItems := (cartItems c)[n := (cartItems c ! n)\<lparr>quantity := qty\<rparr>]\<rparr>),
            d\<lparr>carts := (carts d)(email u \<mapsto>
                 c\<lparr>cartItems := (cartItems c)[n := (cartItems c ! n)\<lparr>quantity := qty\<rparr>]\<rparr>)\<rparr>)"
  using assms by (simp add: updateProductInCart_def store_defs Product_findById_resolved productOf_carts Let_def)

lemma updateProductInCart_p1_at:
  assumes "carts d (email u) = Some c"
    and "updateLoop_p1 productId qty (cartItems c) = Some items'"
    and "productOf w d productId = Some p"
    and "\<not> cart_find_fails w" and "\<not> product_find_fails w" and "\<not> cart_save_fails w"
  shows "updateProductInCart_p1 w d u productId qty =
           (Inr (c\<lparr>cartItems := items'\<rparr>),
            d\<lparr>carts := (carts d)(email u \<mapsto> c\<lparr>cartItems := items'\<rparr>)\<rparr>)"
  using assms by (simp add: updateProductInCart_p1_def store_defs Product_findById_resolved productOf_carts Let_def)

lemma deleteProductFromCart_missing:
  assumes "carts d (email u) = Some c" and "\<not> hasProduct productId (cartItems c)"
    and "\<not> cart_find_fails w"
  shows "deleteProductFromCart w d u productId =
           (Inl (ApiError BAD_REQUEST ''Product not in cart''), d)"
    and "deleteProductFromCart_p1 w d u productId =
           (Inl (ApiError BAD_REQUEST ''Product not in cart''), d)"
  using assms
  by (simp_all add: deleteProductFromCart_def deleteProductFromCart_p1_def store_defs Product_findById_resolved productOf_carts
      findProductIndex_iff filter_hasProduct Let_def)

lemma deleteProductFromCart_at:
  assumes "carts d (email u) = Some c"
    and "findProductIndex productId (cartItems c) = int n"
    and "\<not> cart_find_fails w" and "\<not> cart_save_fails w"
  shows "deleteProductFromCart w d u productId =
           (Inr (), d\<lparr>carts := (carts d)(email u \<mapsto>
                 c\<lparr>cartItems := take n (cartItems c) @ drop (Suc n) (cartItems c)\<rparr>)\<rparr>)"
  using assms by (simp add: deleteProductFromCart_def store_defs Product_findById_resolved productOf_carts Let_def splice1_def)

lemma deleteProductFromCart_p1_noop:
  "snd (deleteProductFromCart_p1 w d u productId) = d"
  by (simp add: deleteProductFromCart_p1_def Cart_findOne_def Cart_updateOne_pull_def Let_def
      split: option.splits)

section \<open>The shop, evaluated\<close>

lemma cast_ids:
  "hexObjectId widgetId = Some widgetId"
  "hexObjectId gadgetId = Some gadgetId"
  "hexObjectId gizmoId = Some gizmoId"
  "hexObjectId widgetIdUpper = Some widgetId"
  by (simp_all add: hexObjectId_def isHexDigit_def lowerHex_def widgetId_def gadgetId_def
      gizmoId_def widgetIdUpper_def)

lemma distinct_ids:
  "widgetId \<noteq> gadgetId" "gadgetId \<noteq> widgetId" "widgetId \<noteq> gizmoId" "gizmoId \<noteq> widgetId"
  "gadgetId \<noteq> gizmoId" "gizmoId \<noteq> gadgetId"
  "widgetIdUpper \<noteq> widgetId" "widgetId \<noteq> widgetIdUpper"
  "widgetIdUpper \<noteq> gadgetId" "gadgetId \<noteq> widgetIdUpper"
  by (simp_all add: widgetId_def gadgetId_def gizmoId_def widgetIdUpper_def)

lemma shop_products:
  "productOf storeUp shop widgetId = Some widget"
  "productOf storeUp shop gadgetId = Some gadget"
  "productOf storeUp shop gizmoId = Some gizmo"
  "productOf storeUp shop widgetIdUpper = Some widget"
  by (simp_all add: productOf_def cast_ids distinct_ids shop_defs)

lemma other_shops_products:
  "productOf w shop2 productId = productOf w shop productId"
  "productOf w emptyShop productId = productOf w shop productId"
  by (simp_all add: shop2_def emptyShop_def productOf_carts)

lemma shopCart_has:
  "hasProduct widgetId (cartItems shopCart)" "hasProduct gadgetId (cartItems shopCart)"
  "\<not> hasProduct gizmoId (cartItems shopCart)" "\<not> hasProduct widgetIdUpper (cartItems shopCart)"
  by (simp_all add: hasProduct_def distinct_ids shop_defs)

text \<open>
  C4 at a product that is in the cart, its id spelled in upper case: the string is cast to
  the id of the widget, the scan of the cart compares the string as it is with the ids as
  printed and finds nothing, and the addition succeeds: the cart is saved with a second line
  of the widget, and no error is thrown. Both copies of the service do so.
\<close>

theorem add_accepts_respelled_duplicate:
  "castObjectId storeUp widgetIdUpper = Some (product_id widget)
   \<and> itemsOf shop ''alice@example.com''
       = [\<lparr>product = widget, quantity = Num 2\<rparr>, \<lparr>product = gadget, quantity = Num 1\<rparr>]
   \<and> fst (addProductToCart shopConfig storeUp shop alice widgetIdUpper (Num 3))
       = Inr (shopCart\<lparr>cartItems := cartItems shopCart @ [\<lparr>product = widget, quantity = Num 3\<rparr>]\<rparr>)
   \<and> itemsOf (snd (addProductToCart shopConfig storeUp shop alice widgetIdUpper (Num 3)))
         ''alice@example.com''
       = [\<lparr>product = widget, quantity = Num 2\<rparr>, \<lparr>product = gadget, quantity = Num 1\<rparr>,
          \<lparr>product = widget, quantity = Num 3\<rparr>]
   \<and> addProductToCart_p1 shopConfig storeUp shop alice widgetIdUpper (Num 3)
       = addProductToCart shopConfig storeUp shop alice widgetIdUpper (Num 3)"
proof -
  have 1: "carts shop (email alice) = Some shopCart" by (simp add: shop_defs)
  have 2: "\<not> cart_find_fails storeUp" "\<not> product_find_fails storeUp" "\<not> cart_save_fails storeUp"
    by (simp_all add: storeUp_def)
  note add = addProductToCart_existing [OF 1 shopCart_has(4) shop_products(4) 2]
  have "castObjectId storeUp widgetIdUpper = Some (product_id widget)"
    by (simp add: storeUp_def cast_ids widget_def)
  moreover have "itemsOf shop ''alice@example.com''
       = [\<lparr>product = widget, quantity = Num 2\<rparr>, \<lparr>product = gadget, quantity = Num 1\<rparr>]"
    by (simp add: itemsOf_def shop_def shopCart_def)
  ultimately show ?thesis
    unfolding add by (simp add: itemsOf_def alice_def shopCart_def)
qed

text \<open>
  C6. For every cart and every string that resolves to a product of the catalogue: if the
  cart has an item whose product id is the string, the update of either copy overwrites the
  quantity of such an item with exactly the given value and changes nothing else, saves the
  cart and returns it; if the cart has no such item, the update fails with status 400,
  "Product not in cart", and the store is unchanged.
\<close>

theorem update_overwrites_quantity:
  assumes "carts d (email u) = Some c"
    and "productOf w d productId = Some p"
    and "\<not> cart_find_fails w" and "\<not> product_find_fails w" and "\<not> cart_save_fails w"
  shows "(hasProduct productId (cartItems c) \<longrightarrow>
           (\<exists>n. n < length (cartItems c) \<and> product_id (product (cartItems c ! n)) = productId
              \<and> updateProductInCart w d u productId qty =
                  (Inr (c\<lparr>cartItems := (cartItems c)[n := (cartItems c ! n)\<lparr>quantity := qty\<rparr>]\<rparr>),
                   d\<lparr>carts := (carts d)(email u \<mapsto>
                      c\<lparr>cartItems := (cartItems c)[n := (cartItems c ! n)\<lparr>quantity := qty\<rparr>]\<rparr>)\<rparr>))
         \<and> (\<exists>n. n < length (cartItems c) \<and> product_id (product (cartItems c ! n)) = productId
              \<and> updateProductInCart_p1 w d u productId qty =
                  (Inr (c\<lparr>cartItems := (cartItems c)[n := (cartItems c ! n)\<lparr>quantity := qty\<rparr>]\<rparr>),
                   d\<lparr>carts := (carts d)(email u \<mapsto>
                      c\<lparr>cartItems := (cartItems c)[n := (cartItems c ! n)\<lparr>quantity := qty\<rparr>]\<rparr>)\<rparr>)))
       \<and> (\<not> hasProduct productId (cartItems c) \<longrightarrow>
            updateProductInCart w d u productId qty =
              (Inl (ApiError BAD_REQUEST ''Product not in cart''), d)
            \<and> updateProductInCart_p1 w d u productId qty =
              (Inl (ApiError BAD_REQUEST ''Product not in cart''), d))"
proof (cases "hasProduct productId (cartItems c)")
  case False
  with updateProductInCart_missing [OF assms(1) False assms(2-4)] show ?thesis by simp
next
  case True
  from True obtain n where n: "findProductIndex productId (cartItems c) = int n"
    "isLastMatch productId (cartItems c) n"
    by (rule findProductIndex_some)
  from updateLoop_p1_some [OF True, of qty] obtain k where k:
    "isFirstMatch productId (cartItems c) k"
    "updateLoop_p1 productId qty (cartItems c)
       = Some ((cartItems c)[k := (cartItems c ! k)\<lparr>quantity := qty\<rparr>])"
    by blast
  have "\<exists>n. n < length (cartItems c) \<and> product_id (product (cartItems c ! n)) = productId
              \<and> updateProductInCart w d u productId qty =
                  (Inr (c\<lparr>cartItems := (cartItems c)[n := (cartItems c ! n)\<lparr>quantity := qty\<rparr>]\<rparr>),
                   d\<lparr>carts := (carts d)(email u \<mapsto>
                      c\<lparr>cartItems := (cartItems c)[n := (cartItems c ! n)\<lparr>quantity := qty\<rparr>]\<rparr>)\<rparr>)"
    using n(2) updateProductInCart_at [OF assms(1) n(1) assms(2-5), of qty]
    unfolding isLastMatch_def by blast
  moreover
  have "\<exists>n. n < length (cartItems c) \<and> product_id (product (cartItems c ! n)) = productId
              \<and> updateProductInCart_p1 w d u productId qty =
                  (Inr (c\<lparr>cartItems := (cartItems c)[n := (cartItems c ! n)\<lparr>quantity := qty\<rparr>]\<rparr>),
                   d\<lparr>carts := (carts d)(email u \<mapsto>
                      c\<lparr>cartItems := (cartItems c)[n := (cartItems c ! n)\<lparr>quantity := qty\<rparr>]\<rparr>)\<rparr>)"
    using k(1) updateProductInCart_p1_at [OF assms(1) k(2) assms(2-5)]
    unfolding isFirstMatch_def by blast
  ultimately show ?thesis using True by blast
qed

theorem update_overwrites_quantity_witness:
  "itemsOf (snd (updateProductInCart storeUp shop alice widgetId (Num 7))) ''alice@example.com''
     = [\<lparr>product = widget, quantity = Num 7\<rparr>, \<lparr>product = gadget, quantity = Num 1\<rparr>]
   \<and> itemsOf (snd (updateProductInCart_p1 storeUp shop alice widgetId (Num 7))) ''alice@example.com''
     = [\<lparr>product = widget, quantity = Num 7\<rparr>, \<lparr>product = gadget, quantity = Num 1\<rparr>]
   \<and> updateProductInCart storeUp shop alice gizmoId (Num 7)
     = (Inl (ApiError BAD_REQUEST ''Product not in cart''), shop)
   \<and> updateProductInCart_p1 storeUp shop alice widgetIdUpper (Num 7)
     = (Inl (ApiError BAD_REQUEST ''Product not in cart''), shop)"
proof -
  have 1: "carts shop (email alice) = Some shopCart" by (simp add: shop_defs)
  have 3: "\<not> cart_find_fails storeUp" "\<not> product_find_fails storeUp" "\<not> cart_save_fails storeUp"
    by (simp_all add: storeUp_def)
  have at: "n = 0" if "n < length (cartItems shopCart)"
    "product_id (product (cartItems shopCart ! n)) = widgetId" for n
    using that by (auto simp: shop_defs distinct_ids less_Suc_eq)
  from update_overwrites_quantity [OF 1 shop_products(1) 3, of "Num 7"] shopCart_has(1) at
  have "updateProductInCart storeUp shop alice widgetId (Num 7) =
         (Inr (shopCart\<lparr>cartItems := (cartItems shopCart)[0 := (cartItems shopCart ! 0)\<lparr>quantity := Num 7\<rparr>]\<rparr>),
          shop\<lparr>carts := (carts shop)(email alice \<mapsto>
             shopCart\<lparr>cartItems := (cartItems shopCart)[0 := (cartItems shopCart ! 0)\<lparr>quantity := Num 7\<rparr>]\<rparr>)\<rparr>)"
    "updateProductInCart_p1 storeUp shop alice widgetId (Num 7) =
         (Inr (shopCart\<lparr>cartItems := (cartItems shopCart)[0 := (cartItems shopCart ! 0)\<lparr>quantity := Num 7\<rparr>]\<rparr>),
          shop\<lparr>carts := (carts shop)(email alice \<mapsto>
             shopCart\<lparr>cartItems := (cartItems shopCart)[0 := (cartItems shopCart ! 0)\<lparr>quantity := Num 7\<rparr>]\<rparr>)\<rparr>)"
    by metis+
  moreover
  from update_overwrites_quantity [OF 1 shop_products(3) 3, of "Num 7"] shopCart_has(3)
  have "updateProductInCart storeUp shop alice gizmoId (Num 7)
     = (Inl (ApiError BAD_REQUEST ''Product not in cart''), shop)" by blast
  moreover
  from update_overwrites_quantity [OF 1 shop_products(4) 3, of "Num 7"] shopCart_has(4)
  have "updateProductInCart_p1 storeUp shop alice widgetIdUpper (Num 7)
     = (Inl (ApiError BAD_REQUEST ''Product not in cart''), shop)" by blast
  ultimately show ?thesis
    by (simp add: itemsOf_def alice_def shopCart_def)
qed

text \<open>
  C10. For every number given as the quantity, zero and negative ones included, and every
  string that resolves to a product of the catalogue: adding it to a cart that has no item
  with that id string (or to no cart) stores the old items followed by an item of the
  product with exactly that quantity; updating it in a cart holding such an item sets the
  quantity of such an item to exactly that value. No quantity is rejected.
\<close>

theorem quantity_stored_as_given:
  assumes "productOf w d productId = Some p"
    and "\<not> cart_find_fails w" and "\<not> product_find_fails w" and "\<not> create_fails w" and "\<not> cart_save_fails w"
  shows "(\<not> hasProduct productId (itemsOf d (email u)) \<longrightarrow>
            itemsOf (snd (addProductToCart cfg w d u productId qty)) (email u)
              = itemsOf d (email u) @ [\<lparr>product = p, quantity = qty\<rparr>]
            \<and> itemsOf (snd (addProductToCart_p1 cfg w d u productId qty)) (email u)
              = itemsOf d (email u) @ [\<lparr>product = p, quantity = qty\<rparr>])
       \<and> (hasProduct productId (itemsOf d (email u)) \<longrightarrow>
            (\<exists>n. n < length (itemsOf d (email u))
               \<and> product_id (product (itemsOf d (email u) ! n)) = productId
               \<and> itemsOf (snd (updateProductInCart w d u productId qty)) (email u)
                   = (itemsOf d (email u))[n := (itemsOf d (email u) ! n)\<lparr>quantity := qty\<rparr>])
          \<and> (\<exists>n. n < length (itemsOf d (email u))
               \<and> product_id (product (itemsOf d (email u) ! n)) = productId
               \<and> itemsOf (snd (updateProductInCart_p1 w d u productId qty)) (email u)
                   = (itemsOf d (email u))[n := (itemsOf d (email u) ! n)\<lparr>quantity := qty\<rparr>]))"
proof (cases "carts d (email u)")
  case None
  then have "\<not> hasProduct productId (itemsOf d (email u))"
    by (simp add: itemsOf_def hasProduct_def)
  with None addProductToCart_absent [OF None assms(1-5), of cfg qty] show ?thesis
    by (simp add: itemsOf_def)
next
  case (Some c)
  then have items: "itemsOf d (email u) = cartItems c" by (simp add: itemsOf_def)
  show ?thesis
  proof (cases "hasProduct productId (cartItems c)")
    case False
    with items addProductToCart_existing [OF Some False assms(1-3,5), of cfg qty] show ?thesis
      by (simp add: itemsOf_def)
  next
    case True
    from True obtain n where n: "findProductIndex productId (cartItems c) = int n"
      "isLastMatch productId (cartItems c) n"
      by (rule findProductIndex_some)
    from updateLoop_p1_some [OF True, of qty] obtain k where k:
      "isFirstMatch productId (cartItems c) k"
      "updateLoop_p1 productId qty (cartItems c)
         = Some ((cartItems c)[k := (cartItems c ! k)\<lparr>quantity := qty\<rparr>])"
      by blast
    have "\<exists>n. n < length (cartItems c) \<and> product_id (product (cartItems c ! n)) = productId
               \<and> itemsOf (snd (updateProductInCart w d u productId qty)) (email u)
                   = (cartItems c)[n := (cartItems c ! n)\<lparr>quantity := qty\<rparr>]"
      using n(2) updateProductInCart_at [OF Some n(1) assms(1-3,5), of qty]
      unfolding isLastMatch_def by (intro exI [of _ n]) (simp add: itemsOf_def)
    moreover
    have "\<exists>n. n < length (cartItems c) \<and> product_id (product (cartItems c ! n)) = productId
               \<and> itemsOf (snd (updateProductInCart_p1 w d u productId qty)) (email u)
                   = (cartItems c)[n := (cartItems c ! n)\<lparr>quantity := qty\<rparr>]"
      using k(1) updateProductInCart_p1_at [OF Some k(2) assms(1-3,5)]
      unfolding isFirstMatch_def by (intro exI [of _ k]) (simp add: itemsOf_def)
    ultimately show ?thesis using True items by simp
  qed
qed

theorem quantity_stored_as_given_witness:
  "itemsOf (snd (addProductToCart shopConfig storeUp emptyShop alice widgetId (Num 0)))
      ''alice@example.com'' = [\<lparr>product = widget, quantity = Num 0\<rparr>]
   \<and> itemsOf (snd (addProductToCart_p1 shopConfig storeUp emptyShop alice widgetId (Num (- 3))))
      ''alice@example.com'' = [\<lparr>product = widget, quantity = Num (- 3)\<rparr>]
   \<and> itemsOf (snd (updateProductInCart storeUp shop alice gadgetId (Num (- 3)))) ''alice@example.com''
       = [\<lparr>product = widget, quantity = Num 2\<rparr>, \<lparr>product = gadget, quantity = Num (- 3)\<rparr>]
   \<and> itemsOf (snd (updateProductInCart_p1 storeUp shop alice gadgetId NaN)) ''alice@example.com''
       = [\<lparr>product = widget, quantity = Num 2\<rparr>, \<lparr>product = gadget, quantity = NaN\<rparr>]"
proof -
  have up: "\<not> cart_find_fails storeUp" "\<not> product_find_fails storeUp" "\<not> create_fails storeUp"
    "\<not> cart_save_fails storeUp"
    by (simp_all add: storeUp_def)
  have w: "productOf storeUp emptyShop widgetId = Some widget"
    by (simp add: other_shops_products shop_products)
  have none: "itemsOf emptyShop (email alice) = []" by (simp add: itemsOf_def emptyShop_def)
  have items: "itemsOf shop (email alice) = cartItems shopCart"
    by (simp add: itemsOf_def shop_defs)
  have at: "n = 1" if "n < length (cartItems shopCart)"
    "product_id (product (cartItems shopCart ! n)) = gadgetId" for n
    using that by (auto simp: shop_defs distinct_ids less_Suc_eq)
  have a: "itemsOf (snd (addProductToCart shopConfig storeUp emptyShop alice widgetId (Num 0))) (email alice)
             = [\<lparr>product = widget, quantity = Num 0\<rparr>]"
    using quantity_stored_as_given [OF w up, of alice shopConfig "Num 0"] none
    by (simp add: hasProduct_def)
  have b: "itemsOf (snd (addProductToCart_p1 shopConfig storeUp emptyShop alice widgetId (Num (- 3)))) (email alice)
             = [\<lparr>product = widget, quantity = Num (- 3)\<rparr>]"
    using quantity_stored_as_given [OF w up, of alice shopConfig "Num (- 3)"] none
    by (simp add: hasProduct_def)
  have c: "itemsOf (snd (updateProductInCart storeUp shop alice gadgetId (Num (- 3)))) (email alice)
       = (cartItems shopCart)[1 := (cartItems shopCart ! 1)\<lparr>quantity := Num (- 3)\<rparr>]"
    using quantity_stored_as_given [OF shop_products(2) up, of alice shopConfig "Num (- 3)"]
      shopCart_has(2) at
    unfolding items by auto
  have d: "itemsOf (snd (updateProductInCart_p1 storeUp shop alice gadgetId NaN)) (email alice)
       = (cartItems shopCart)[1 := (cartItems shopCart ! 1)\<lparr>quantity := NaN\<rparr>]"
    using quantity_stored_as_given [OF shop_products(2) up, of alice shopConfig NaN]
      shopCart_has(2) at
    unfolding items by auto
  from a b c d show ?thesis by (simp add: alice_def shopCart_def)
qed

text \<open>
  C8, as stated, fails for \<^verbatim>\<open>src/services/cart.service.js\<close>: of two lines with the same
  product, its update changes the second and its removal takes out the second; the first
  match stays as it was.
\<close>

theorem update_and_remove_take_last_match:
  "itemsOf (snd (updateProductInCart storeUp shop2 alice widgetId (Num 9))) ''alice@example.com''
     = [\<lparr>product = widget, quantity = Num 1\<rparr>, \<lparr>product = widget, quantity = Num 9\<rparr>]
   \<and> itemsOf (snd (deleteProductFromCart storeUp shop2 alice widgetId)) ''alice@example.com''
     = [\<lparr>product = widget, quantity = Num 1\<rparr>]
   \<and> itemsOf shop2 ''alice@example.com''
     = [\<lparr>product = widget, quantity = Num 1\<rparr>, \<lparr>product = widget, quantity = Num 2\<rparr>]"
proof -
  have 1: "carts shop2 (email alice) = Some twoWidgets" by (simp add: shop2_def shop_defs)
  have 2: "findProductIndex widgetId (cartItems twoWidgets) = int 1"
    by (simp add: findProductIndex_def twoWidgets_def widget_def)
  have 3: "productOf storeUp shop2 widgetId = Some widget"
    by (simp add: other_shops_products shop_products)
  have 4: "\<not> cart_find_fails storeUp" "\<not> product_find_fails storeUp" "\<not> cart_save_fails storeUp"
    by (simp_all add: storeUp_def)
  have 5: "email alice = ''alice@example.com''" by (simp add: alice_def)
  show ?thesis
    unfolding updateProductInCart_at [OF 1 2 3 4] deleteProductFromCart_at [OF 1 2 4(1,3)]
    by (simp add: itemsOf_def 5 shop2_def twoWidgets_def)
qed

text \<open>
  C8, amended. For every cart with one or more items whose product id is the given string:
  the update and the removal of \<^verbatim>\<open>src/services/cart.service.js\<close> act on the last matching
  item only, the update of the second copy acts on the first matching item only; all other
  items stay in place.
\<close>

theorem duplicate_lines_which_match:
  assumes "carts d (email u) = Some c" and "hasProduct productId (cartItems c)"
    and "productOf w d productId = Some p"
    and "\<not> cart_find_fails w" and "\<not> product_find_fails w" and "\<not> cart_save_fails w"
  shows "(\<exists>n. isLastMatch productId (cartItems c) n
            \<and> itemsOf (snd (updateProductInCart w d u productId qty)) (email u)
                = (cartItems c)[n := (cartItems c ! n)\<lparr>quantity := qty\<rparr>]
            \<and> itemsOf (snd (deleteProductFromCart w d u productId)) (email u)
                = take n (cartItems c) @ drop (Suc n) (cartItems c))
       \<and> (\<exists>n. isFirstMatch productId (cartItems c) n
            \<and> itemsOf (snd (updateProductInCart_p1 w d u productId qty)) (email u)
                = (cartItems c)[n := (cartItems c ! n)\<lparr>quantity := qty\<rparr>])"
proof -
  from assms(2) obtain n where n: "findProductIndex productId (cartItems c) = int n"
    "isLastMatch productId (cartItems c) n"
    by (rule findProductIndex_some)
  from updateLoop_p1_some [OF assms(2), of qty] obtain k where k:
    "isFirstMatch productId (cartItems c) k"
    "updateLoop_p1 productId qty (cartItems c)
       = Some ((cartItems c)[k := (cartItems c ! k)\<lparr>quantity := qty\<rparr>])"
    by blast
  have "isLastMatch productId (cartItems c) n
            \<and> itemsOf (snd (updateProductInCart w d u productId qty)) (email u)
                = (cartItems c)[n := (cartItems c ! n)\<lparr>quantity := qty\<rparr>]
            \<and> itemsOf (snd (deleteProductFromCart w d u productId)) (email u)
                = take n (cartItems c) @ drop (Suc n) (cartItems c)"
    using n(2) updateProductInCart_at [OF assms(1) n(1) assms(3-6), of qty]
      deleteProductFromCart_at [OF assms(1) n(1) assms(4,6)]
    by (simp add: itemsOf_def)
  moreover
  have "isFirstMatch productId (cartItems c) k
            \<and> itemsOf (snd (updateProductInCart_p1 w d u productId qty)) (email u)
                = (cartItems c)[k := (cartItems c ! k)\<lparr>quantity := qty\<rparr>]"
    using k(1) updateProductInCart_p1_at [OF assms(1) k(2) assms(3-6)]
    by (simp add: itemsOf_def)
  ultimately show ?thesis by blast
qed

theorem duplicate_lines_which_match_witness:
  "isLastMatch widgetId (cartItems twoWidgets) 1 \<and> isFirstMatch widgetId (cartItems twoWidgets) 0
   \<and> itemsOf (snd (updateProductInCart storeUp shop2 alice widgetId (Num 9))) (email alice)
       = [\<lparr>product = widget, quantity = Num 1\<rparr>, \<lparr>product = widget, quantity = Num 9\<rparr>]
   \<and> itemsOf (snd (deleteProductFromCart storeUp shop2 alice widgetId)) (email alice)
       = [\<lparr>product = widget, quantity = Num 1\<rparr>]
   \<and> itemsOf (snd (updateProductInCart_p1 storeUp shop2 alice widgetId (Num 9))) (email alice)
       = [\<lparr>product = widget, quantity = Num 9\<rparr>, \<lparr>product = widget, quantity = Num 2\<rparr>]"
proof -
  have 1: "carts shop2 (email alice) = Some twoWidgets" by (simp add: shop2_def shop_defs)
  have 2: "hasProduct widgetId (cartItems twoWidgets)"
    by (simp add: hasProduct_def twoWidgets_def shop_defs)
  have 3: "productOf storeUp shop2 widgetId = Some widget"
    by (simp add: other_shops_products shop_products)
  have 4: "\<not> cart_find_fails storeUp" "\<not> product_find_fails storeUp" "\<not> cart_save_fails storeUp"
    by (simp_all add: storeUp_def)
  have last: "n = 1" if "isLastMatch widgetId (cartItems twoWidgets) n" for n
    using that unfolding isLastMatch_def
    by (cases "n = 0") (auto simp: twoWidgets_def shop_defs less_Suc_eq)
  have first: "n = 0" if "isFirstMatch widgetId (cartItems twoWidgets) n" for n
    using that unfolding isFirstMatch_def
    by (cases "n = 0") (auto simp: twoWidgets_def shop_defs less_Suc_eq)
  from duplicate_lines_which_match [OF 1 2 3 4, of "Num 9"] last first
  have "isLastMatch widgetId (cartItems twoWidgets) 1
      \<and> itemsOf (snd (updateProductInCart storeUp shop2 alice widgetId (Num 9))) (email alice)
                = (cartItems twoWidgets)[1 := (cartItems twoWidgets ! 1)\<lparr>quantity := Num 9\<rparr>]
      \<and> itemsOf (snd (deleteProductFromCart storeUp shop2 alice widgetId)) (email alice)
                = take 1 (cartItems twoWidgets) @ drop (Suc 1) (cartItems twoWidgets)
      \<and> isFirstMatch widgetId (cartItems twoWidgets) 0
      \<and> itemsOf (snd (updateProductInCart_p1 storeUp shop2 alice widgetId (Num 9))) (email alice)
                = (cartItems twoWidgets)[0 := (cartItems twoWidgets ! 0)\<lparr>quantity := Num 9\<rparr>]"
    by metis
  then show ?thesis by (simp add: twoWidgets_def)
qed

text \<open>
  C7 at the removal of the second copy: the cart has an item for the widget, the call reports
  success, and the store is the one given: the item is still in the cart.
\<close>

theorem delete_p1_keeps_the_item:
  "deleteProductFromCart_p1 storeUp shop alice widgetId = (Inr (), shop)
   \<and> itemsOf shop ''alice@example.com''
       = [\<lparr>product = widget, quantity = Num 2\<rparr>, \<lparr>product = gadget, quantity = Num 1\<rparr>]"
  by (simp add: deleteProductFromCart_p1_def Cart_findOne_def Cart_updateOne_pull_def Let_def
      itemsOf_def shop_def alice_def shopCart_def storeUp_def widget_def)

text \<open>
  The removal of \<^verbatim>\<open>src/services/cart.service.js\<close> does what C7 says: one item of the product
  goes, the others keep their order; without such an item the call fails and changes nothing.
\<close>

lemma deleteProductFromCart_removes_one:
  assumes "carts d (email u) = Some c" and "\<not> cart_find_fails w" and "\<not> cart_save_fails w"
  shows "(hasProduct productId (cartItems c) \<longrightarrow>
           (\<exists>n. n < length (cartItems c) \<and> product_id (product (cartItems c ! n)) = productId
              \<and> deleteProductFromCart w d u productId =
                  (Inr (), d\<lparr>carts := (carts d)(email u \<mapsto>
                     c\<lparr>cartItems := take n (cartItems c) @ drop (Suc n) (cartItems c)\<rparr>)\<rparr>)))
       \<and> (\<not> hasProduct productId (cartItems c) \<longrightarrow>
            deleteProductFromCart w d u productId =
              (Inl (ApiError BAD_REQUEST ''Product not in cart''), d))"
proof (cases "hasProduct productId (cartItems c)")
  case False
  with deleteProductFromCart_missing(1) [OF assms(1) False assms(2)] show ?thesis by simp
next
  case True
  from True obtain n where n: "findProductIndex productId (cartItems c) = int n"
    "isLastMatch productId (cartItems c) n"
    by (rule findProductIndex_some)
  with deleteProductFromCart_at [OF assms(1) n(1) assms(2,3)] True show ?thesis
    unfolding isLastMatch_def by blast
qed

section \<open>Uniqueness of cart lines\<close>

lemma productOf_id:
  "productOf w d productId = Some p \<Longrightarrow> castObjectId w productId = Some (product_id p)"
  by (auto simp: productOf_def find_Some_iff split: option.splits)

lemma Product_findById_id:
  "Product_findById w d productId = Inr (Some p) \<Longrightarrow>
   castObjectId w productId = Some (product_id p)"
  by (auto simp: Product_findById_def find_Some_iff split: option.splits if_splits)

lemma Product_findById_carts:
  "Product_findById w (d\<lparr>carts := cs\<rparr>) productId = Product_findById w d productId"
  by (simp add: Product_findById_def split: option.splits)

lemma canonical_found:
  "canonicalId w productId \<Longrightarrow> Product_findById w d productId = Inr (Some p) \<Longrightarrow>
   product_id p = productId"
  by (auto simp: canonicalId_def dest!: Product_findById_id)

lemma ids_list_update:
  "map (\<lambda>item. product_id (product item)) (items[n := (items ! n)\<lparr>quantity := qty\<rparr>])
     = map (\<lambda>item. product_id (product item)) items"
  by (cases "n < length items") (simp_all add: map_update list_update_same_conv list_update_beyond)

lemma ids_updateLoop_p1:
  "updateLoop_p1 productId qty items = Some items' \<Longrightarrow>
   map (\<lambda>item. product_id (product item)) items' = map (\<lambda>item. product_id (product item)) items"
  by (induction items arbitrary: items') (auto split: if_splits)

lemma distinct_splice1:
  "distinct (map f xs) \<Longrightarrow> distinct (map f (splice1 n xs))"
proof -
  assume d: "distinct (map f xs)"
  have "map f xs = map f (take n xs) @ map f (drop n xs)"
    by (simp flip: map_append)
  with d have "distinct (map f (take n xs) @ map f (drop n xs))" by simp
  moreover have "set (drop (Suc n) xs) \<subseteq> set (drop n xs)"
    by (simp add: set_drop_subset_set_drop)
  moreover have "distinct (map f (drop (Suc n) xs))"
    using d by (metis distinct_drop drop_map)
  ultimately show ?thesis
    unfolding splice1_def by (auto simp: distinct_map)
qed

lemma addProductToCart_unique:
  assumes "canonicalId w productId" and "uniqueCart d e"
  shows "uniqueCart (snd (addProductToCart cfg w d u productId qty)) e"
proof (cases "Product_findById w d productId")
  case (Inl err)
  with assms(2) show ?thesis
    by (auto simp: addProductToCart_def uniqueCart_def store_defs Let_def Product_findById_def
        split: option.splits if_splits)
next
  case (Inr found)
  show ?thesis
  proof (cases found)
    case None
    with Inr assms(2) show ?thesis
      by (auto simp: addProductToCart_def uniqueCart_def store_defs Let_def Product_findById_def
          split: option.splits if_splits)
  next
    case (Some p)
    with Inr have "Product_findById w d productId = Inr (Some p)" by simp
    from canonical_found [OF assms(1) this] have id: "product_id p = productId" .
    note look = Product_findById_carts
    from assms(2) Inr Some id show ?thesis
      by (auto simp: addProductToCart_def uniqueCart_def store_defs Let_def look
          findProductIndex_iff hasProduct_def split: option.splits if_splits)
  qed
qed

lemma addProductToCart_p1_unique:
  assumes "canonicalId w productId" and "uniqueCart d e"
  shows "uniqueCart (snd (addProductToCart_p1 cfg w d u productId qty)) e"
proof (cases "Product_findById w d productId")
  case (Inl err)
  with assms(2) show ?thesis
    by (auto simp: addProductToCart_p1_def uniqueCart_def store_defs Let_def Product_findById_def
        cartSchemaDefaults_def split: option.splits if_splits)
next
  case (Inr found)
  show ?thesis
  proof (cases found)
    case None
    with Inr assms(2) show ?thesis
      by (auto simp: addProductToCart_p1_def uniqueCart_def store_defs Let_def
          Product_findById_def cartSchemaDefaults_def split: option.splits if_splits)
  next
    case (Some p)
    with Inr have "Product_findById w d productId = Inr (Some p)" by simp
    from canonical_found [OF assms(1) this] have id: "product_id p = productId" .
    note look = Product_findById_carts
    from assms(2) Inr Some id show ?thesis
      by (auto simp: addProductToCart_p1_def uniqueCart_def store_defs Let_def look
          cartSchemaDefaults_def filter_empty_conv split: option.splits if_splits)
  qed
qed

lemma updateProductInCart_unique:
  "uniqueCart d e \<Longrightarrow> uniqueCart (snd (updateProductInCart w d u productId qty)) e"
  by (auto simp: updateProductInCart_def uniqueCart_def store_defs Product_findById_def Let_def ids_list_update
      split: option.splits if_splits)

lemma updateProductInCart_p1_unique:
  "uniqueCart d e \<Longrightarrow> uniqueCart (snd (updateProductInCart_p1 w d u productId qty)) e"
  by (auto simp: updateProductInCart_p1_def uniqueCart_def store_defs Product_findById_def Let_def
      dest!: ids_updateLoop_p1 split: option.splits if_splits)

lemma deleteProductFromCart_unique:
  "uniqueCart d e \<Longrightarrow> uniqueCart (snd (deleteProductFromCart w d u productId)) e"
  by (auto simp: deleteProductFromCart_def uniqueCart_def store_defs Product_findById_def Let_def distinct_splice1
      split: option.splits if_splits)

lemma serve_unique:
  "canonicalRequest r \<Longrightarrow> uniqueCart d e \<Longrightarrow> uniqueCart (serve cfg u d r) e"
proof (cases r)
  case (Pair w q)
  assume "canonicalRequest r" "uniqueCart d e"
  with Pair show ?thesis
    by (cases q)
      (simp_all add: addProductToCart_unique updateProductInCart_unique
        deleteProductFromCart_unique)
qed

lemma serve_p1_unique:
  "canonicalRequest r \<Longrightarrow> uniqueCart d e \<Longrightarrow> uniqueCart (serve_p1 cfg u d r) e"
proof (cases r)
  case (Pair w q)
  assume "canonicalRequest r" "uniqueCart d e"
  with Pair show ?thesis
    by (cases q)
      (simp_all add: addProductToCart_p1_unique updateProductInCart_p1_unique
        deleteProductFromCart_p1_noop)
qed

lemma serveAll_unique:
  "\<forall>r \<in> set rs. canonicalRequest r \<Longrightarrow> uniqueCart d e \<Longrightarrow> uniqueCart (serveAll cfg u d rs) e"
  unfolding serveAll_def by (induction rs arbitrary: d) (simp_all add: serve_unique)

lemma serveAll_p1_unique:
  "\<forall>r \<in> set rs. canonicalRequest r \<Longrightarrow> uniqueCart d e \<Longrightarrow>
   uniqueCart (serveAll_p1 cfg u d rs) e"
  unfolding serveAll_p1_def by (induction rs arbitrary: d) (simp_all add: serve_p1_unique)

lemma linesOf_distinct:
  "distinct (map (\<lambda>item. product_id (product item)) items) \<Longrightarrow> linesOf productId items \<le> 1"
proof (induction items)
  case Nil
  then show ?case by (simp add: linesOf_def)
next
  case (Cons item items)
  show ?case
  proof (cases "product_id (product item) = productId")
    case True
    with Cons.prems have "filter (\<lambda>item. product_id (product item) = productId) items = []"
      by (auto simp: filter_empty_conv image_iff)
    with True show ?thesis by (simp add: linesOf_def)
  next
    case False
    with Cons show ?thesis by (simp add: linesOf_def)
  qed
qed

lemma uniqueCart_linesOf:
  assumes "uniqueCart d e"
  shows "linesOf productId (itemsOf d e) \<le> 1"
proof (cases "carts d e")
  case None
  then show ?thesis by (simp add: itemsOf_def linesOf_def)
next
  case (Some c)
  with assms have "distinct (map (\<lambda>item. product_id (product item)) (cartItems c))"
    by (simp add: uniqueCart_def)
  from linesOf_distinct [OF this] Some show ?thesis by (simp add: itemsOf_def)
qed

text \<open>
  Where every product is added under the spelling of the store, the lines of a cart stay
  unique: after any finite sequence of such requests of a user, whatever the persistence
  layer does during each, started from an empty or absent cart, the user's cart has at most
  one item of each product id. This holds for either copy of the service.
\<close>

lemma canonical_requests_unique:
  assumes "itemsOf d (email u) = []" and "\<forall>r \<in> set rs. canonicalRequest r"
  shows "linesOf productId (itemsOf (serveAll cfg u d rs) (email u)) \<le> 1
       \<and> linesOf productId (itemsOf (serveAll_p1 cfg u d rs) (email u)) \<le> 1"
proof -
  from assms(1) have "uniqueCart d (email u)"
    by (cases "carts d (email u)") (simp_all add: uniqueCart_def itemsOf_def)
  then show ?thesis
    using uniqueCart_linesOf [OF serveAll_unique [OF assms(2)]]
      uniqueCart_linesOf [OF serveAll_p1_unique [OF assms(2)]]
    by blast
qed

text \<open>
  C3 at two additions of one product, its id spelled in lower case and then in upper case,
  started from a shop where the user has no cart: both additions succeed, and the cart has
  two items whose product is the widget. Both copies of the service do so.
\<close>

theorem respelled_add_duplicates_line:
  "itemsOf emptyShop ''alice@example.com'' = []
   \<and> itemsOf (serveAll shopConfig alice emptyShop respelledRequests) ''alice@example.com''
       = [\<lparr>product = widget, quantity = Num 3\<rparr>, \<lparr>product = widget, quantity = Num 3\<rparr>]
   \<and> linesOf (product_id widget)
        (itemsOf (serveAll shopConfig alice emptyShop respelledRequests) ''alice@example.com'') = 2
   \<and> serveAll_p1 shopConfig alice emptyShop respelledRequests
       = serveAll shopConfig alice emptyShop respelledRequests"
proof -
  let ?c1 = "\<lparr>cartItems = [\<lparr>product = widget, quantity = Num 3\<rparr>],
              paymentOption = default_payment_option shopConfig\<rparr>"
  let ?d1 = "emptyShop\<lparr>carts := (carts emptyShop)(email alice \<mapsto> ?c1)\<rparr>"
  have up: "\<not> cart_find_fails storeUp" "\<not> product_find_fails storeUp" "\<not> create_fails storeUp"
    "\<not> cart_save_fails storeUp"
    by (simp_all add: storeUp_def)
  have none: "carts emptyShop (email alice) = None" by (simp add: emptyShop_def)
  have w: "productOf storeUp emptyShop widgetId = Some widget"
    by (simp add: other_shops_products shop_products)
  note first = addProductToCart_absent [OF none w up, of shopConfig "Num 3"]
  have some: "carts ?d1 (email alice) = Some ?c1" by simp
  have no: "\<not> hasProduct widgetIdUpper (cartItems ?c1)"
    by (simp add: hasProduct_def widget_def distinct_ids)
  have W: "productOf storeUp ?d1 widgetIdUpper = Some widget"
    by (simp add: productOf_carts other_shops_products shop_products)
  note second = addProductToCart_existing [OF some no W up(1,2,4), of shopConfig "Num 3"]
  have A: "serveAll shopConfig alice emptyShop respelledRequests
             = ?d1\<lparr>carts := (carts ?d1)(email alice \<mapsto>
                  ?c1\<lparr>cartItems := cartItems ?c1 @ [\<lparr>product = widget, quantity = Num 3\<rparr>]\<rparr>)\<rparr>"
    by (simp add: serveAll_def respelledRequests_def first(1) second(1))
  have B: "serveAll_p1 shopConfig alice emptyShop respelledRequests
             = ?d1\<lparr>carts := (carts ?d1)(email alice \<mapsto>
                  ?c1\<lparr>cartItems := cartItems ?c1 @ [\<lparr>product = widget, quantity = Num 3\<rparr>]\<rparr>)\<rparr>"
    by (simp add: serveAll_p1_def respelledRequests_def first second)
  have 0: "itemsOf emptyShop ''alice@example.com'' = []" by (simp add: itemsOf_def emptyShop_def)
  show ?thesis
    unfolding A B using 0 by (simp add: itemsOf_def linesOf_def alice_def)
qed

text \<open>The same requests in one spelling: the second addition is refused.\<close>

lemma same_spelling_refused:
  "itemsOf (serveAll shopConfig alice emptyShop
      [(storeUp, AddItem widgetId (Num 3)), (storeUp, AddItem widgetId (Num 3))]) (email alice)
     = [\<lparr>product = widget, quantity = Num 3\<rparr>]"
proof -
  let ?c1 = "\<lparr>cartItems = [\<lparr>product = widget, quantity = Num 3\<rparr>],
              paymentOption = default_payment_option shopConfig\<rparr>"
  let ?d1 = "emptyShop\<lparr>carts := (carts emptyShop)(email alice \<mapsto> ?c1)\<rparr>"
  have up: "\<not> cart_find_fails storeUp" "\<not> product_find_fails storeUp" "\<not> create_fails storeUp"
    "\<not> cart_save_fails storeUp"
    by (simp_all add: storeUp_def)
  have none: "carts emptyShop (email alice) = None" by (simp add: emptyShop_def)
  have w: "productOf storeUp emptyShop widgetId = Some widget"
    by (simp add: other_shops_products shop_products)
  note first = addProductToCart_absent [OF none w up, of shopConfig "Num 3"]
  have some: "carts ?d1 (email alice) = Some ?c1" by simp
  have has: "hasProduct widgetId (cartItems ?c1)" by (simp add: hasProduct_def widget_def)
  note second = addProductToCart_duplicate [OF some has up(1), of shopConfig "Num 3"]
  show ?thesis
    by (simp add: serveAll_def first(1) second(1) itemsOf_def)
qed

end
